theory Spec2Isabelle
  imports Complex_Main
begin

section \<open>Summary statistics for survey data: a shallow embedding\<close>

text \<open>
  The development follows \<^verbatim>\<open>statsmodels/survey/summary_stats.py\<close>.

  Conventions of the embedding.
  \<^item> A one-dimensional numpy array is a list; a two-dimensional array is the list of its
    rows. Float arrays hold \<^typ>\<open>real\<close> numbers: rounding is not modelled, and a
    computation that numpy would finish with \<^verbatim>\<open>inf\<close> or \<^verbatim>\<open>nan\<close> (a float division by
    zero) yields the value \<open>Inl NonFinite\<close> here, since no real number stands for it.
  \<^item> The weights, \<^verbatim>\<open>fpc\<close>, \<^verbatim>\<open>rep_weights\<close> and the data are float arrays (an array of
    integer weights is outside the model: numpy refuses to scale it in place by a
    float).
  \<^item> Strata and cluster labels are integers; only their order and equality are used.
    The recoded labels and all indices are natural numbers.
  \<^item> Every \<^verbatim>\<open>raise\<close> of the module, and every exception that Python or numpy raises in
    the modelled statements, is a value \<open>Inl e\<close> of the result type.
  \<^item> The draws of \<^verbatim>\<open>np.random.choice\<close> are a parameter of the functions that draw.
\<close>

subsection \<open>Errors\<close>

text \<open>
  The first four constructors are the \<^verbatim>\<open>ValueError\<close>s that \<^verbatim>\<open>SurveyDesign\<close> raises itself,
  \<open>QuantileOutOfRange\<close> is the \<^verbatim>\<open>ValueError\<close> of \<^verbatim>\<open>SurveyQuantile\<close>. \<open>EmptySequence\<close> is the
  \<^verbatim>\<open>ValueError\<close> of \<^verbatim>\<open>max\<close>, \<^verbatim>\<open>min\<close> or \<^verbatim>\<open>np.random.choice\<close> on an empty array,
  \<open>ShapeMismatch\<close> the \<^verbatim>\<open>ValueError\<close> of numpy for operands whose shapes do not fit.
\<close>

datatype error =
    MethodNotSupported
  | RepWeightsWithDesign
  | NothingSupplied
  | LengthsIncompatible
  | QuantileOutOfRange
  | EmptySequence
  | ShapeMismatch
  | IndexError
  | TypeError
  | AttributeError
  | ZeroDivisionError
  | NonFinite

text \<open>The errors that the constructor of \<^verbatim>\<open>SurveyDesign\<close> raises on purpose.\<close>

fun is_config_error :: "error \<Rightarrow> bool" where
  "is_config_error MethodNotSupported = True"
| "is_config_error RepWeightsWithDesign = True"
| "is_config_error NothingSupplied = True"
| "is_config_error LengthsIncompatible = True"
| "is_config_error _ = False"

subsection \<open>The numpy functions the module calls\<close>

text \<open>\<^verbatim>\<open>np.unique(x)\<close>: the sorted distinct values.\<close>

definition np_unique :: "'a::linorder list \<Rightarrow> 'a list" where
  "np_unique xs = sort (remdups xs)"

text \<open>The position of the first occurrence (the length of the list when there is none).\<close>

fun first_index :: "'a \<Rightarrow> 'a list \<Rightarrow> nat" where
  "first_index x [] = 0"
| "first_index x (y # ys) = (if x = y then 0 else Suc (first_index x ys))"

text \<open>\<^verbatim>\<open>np.unique(x, return_inverse=True)[1]\<close>: each value's position among the sorted
  distinct values.\<close>

definition unique_inverse :: "'a::linorder list \<Rightarrow> nat list" where
  "unique_inverse xs = map (\<lambda>x. first_index x (np_unique xs)) xs"

text \<open>\<^verbatim>\<open>np.unique(x, return_index=True)[1]\<close>: for each distinct value, in sorted order, the
  index of its first occurrence in \<open>x\<close>.\<close>

definition unique_index :: "'a::linorder list \<Rightarrow> nat list" where
  "unique_index xs = map (\<lambda>u. first_index u xs) (np_unique xs)"

text \<open>Python's \<^verbatim>\<open>max\<close> on an array of recoded labels.\<close>

fun py_max :: "nat list \<Rightarrow> error + nat" where
  "py_max [] = Inl EmptySequence"
| "py_max (x # xs) = Inr (fold max xs x)"

text \<open>\<^verbatim>\<open>np.bincount(x, minlength=m)\<close>: entry \<open>k\<close> counts the occurrences of \<open>k\<close>; the
  result has \<open>max(m, max(x) + 1)\<close> entries, and \<open>m\<close> entries for an empty \<open>x\<close>.\<close>

definition np_bincount :: "nat list \<Rightarrow> nat \<Rightarrow> nat list" where
  "np_bincount xs minlength =
     map (count_list xs)
       [0..<max minlength (case xs of [] \<Rightarrow> 0 | y # ys \<Rightarrow> Suc (fold max ys y))]"

text \<open>\<^verbatim>\<open>np.flatnonzero(x == s)\<close>: the indices at which \<open>x\<close> holds \<open>s\<close>, ascending.\<close>

definition np_flatnonzero_eq :: "nat list \<Rightarrow> nat \<Rightarrow> nat list" where
  "np_flatnonzero_eq xs s = filter (\<lambda>i. xs ! i = s) [0..<length xs]"

subsection \<open>SurveyDesign\<close>

text \<open>
  The attributes that \<^verbatim>\<open>SurveyDesign.__init__\<close> assigns. On the \<^verbatim>\<open>rep_weights\<close> path the
  constructor returns after \<^verbatim>\<open>weights\<close>; the attributes below it do not exist then (here
  they are left empty, and every function that reads them first looks at
  \<open>rep_weights\<close>, as the source does).
\<close>

record survey_design =
  cov_method :: string
  rep_weights :: "real list list option"
  weights :: "real list"
  fpc :: "real list"
  strat :: "nat list"
  nstrat :: nat
  sclust :: "nat list"
  clust_per_strat :: "nat list"
  strat_for_clust :: "nat list"
  nclust :: nat
  ii :: "nat list list"

text \<open>\<^verbatim>\<open>v = [len(x) for x in (strata, cluster, weights) if x is not None]\<close>: the lengths
  of the supplied arrays.\<close>

definition supplied_lengths ::
  "int list option \<Rightarrow> int list option \<Rightarrow> real list option \<Rightarrow> nat list" where
  "supplied_lengths strata cluster wts =
     (case strata of None \<Rightarrow> [] | Some x \<Rightarrow> [length x]) @
     (case cluster of None \<Rightarrow> [] | Some x \<Rightarrow> [length x]) @
     (case wts of None \<Rightarrow> [] | Some x \<Rightarrow> [length x])"

text \<open>\<^verbatim>\<open>SurveyDesign._check_args\<close>. \<^verbatim>\<open>len(set(v))\<close> is the number of distinct lengths.\<close>

definition check_args ::
  "int list option \<Rightarrow> int list option \<Rightarrow> real list option \<Rightarrow> real list option \<Rightarrow>
     error + (int list \<times> int list \<times> real list \<times> real list)" where
  "check_args strata cluster wts fpc0 =
     (if strata = None \<and> cluster = None \<and> wts = None then Inl NothingSupplied
      else
        let v = supplied_lengths strata cluster wts
        in if length (remdups v) \<noteq> 1 then Inl LengthsIncompatible
           else
             let n = hd v
             in Inr (case strata of None \<Rightarrow> replicate n 1 | Some x \<Rightarrow> x,
                     case cluster of None \<Rightarrow> replicate n 1 | Some x \<Rightarrow> x,
                     case wts of None \<Rightarrow> replicate n 1 | Some x \<Rightarrow> x,
                     case fpc0 of None \<Rightarrow> replicate n 0 | Some x \<Rightarrow> x))"

text \<open>The recoding of the clusters: with \<^verbatim>\<open>nest\<close>, the recoded cluster and stratum
  are combined as \<^verbatim>\<open>clust + m*strat\<close>, \<^verbatim>\<open>m = max(clust) + 1\<close>, and recoded again.\<close>

definition recode_clusters :: "bool \<Rightarrow> nat list \<Rightarrow> nat list \<Rightarrow> error + nat list" where
  "recode_clusters nest clust strat0 =
     (if nest then
        (case py_max clust of
           Inl e \<Rightarrow> Inl e
         | Inr mc \<Rightarrow> Inr (unique_inverse (map2 (\<lambda>c s. c + (mc + 1) * s) clust strat0)))
      else Inr clust)"

text \<open>\<^verbatim>\<open>SurveyDesign.__init__\<close>. \<^verbatim>\<open>self.fpc[ii]\<close> raises \<^verbatim>\<open>IndexError\<close> when a supplied
  \<^verbatim>\<open>fpc\<close> is too short for one of the indices.\<close>

definition SurveyDesign_init ::
  "int list option \<Rightarrow> int list option \<Rightarrow> real list option \<Rightarrow> real list list option \<Rightarrow>
     real list option \<Rightarrow> string \<Rightarrow> bool \<Rightarrow> error + survey_design" where
  "SurveyDesign_init strata cluster wts repw fpc0 method nest =
     (if method \<notin> set [''boot'', ''mean_boot'', ''jack''] then Inl MethodNotSupported
      else
        (case repw of
           Some rw \<Rightarrow>
             if strata \<noteq> None \<or> cluster \<noteq> None then Inl RepWeightsWithDesign
             else Inr \<lparr>cov_method = method, rep_weights = Some rw,
                       weights = (case wts of None \<Rightarrow> replicate (length rw) 1 | Some w \<Rightarrow> w),
                       fpc = [], strat = [], nstrat = 0, sclust = [],
                       clust_per_strat = [], strat_for_clust = [], nclust = 0, ii = []\<rparr>
         | None \<Rightarrow>
             (case check_args strata cluster wts fpc0 of
                Inl e \<Rightarrow> Inl e
              | Inr (strata1, cluster1, w, f) \<Rightarrow>
                  let st = unique_inverse strata1;
                      clust = unique_inverse cluster1
                  in (case py_max st of
                        Inl e \<Rightarrow> Inl e
                      | Inr ms \<Rightarrow>
                          (case recode_clusters nest clust st of
                             Inl e \<Rightarrow> Inl e
                           | Inr sc \<Rightarrow>
                               let ii0 = unique_index sc;
                                   cps = np_bincount (map (\<lambda>i. st ! i) ii0) 0;
                                   sfc = map (\<lambda>i. st ! i) ii0
                               in if list_ex (\<lambda>i. length f \<le> i) ii0 then Inl IndexError
                                  else Inr \<lparr>cov_method = method, rep_weights = None,
                                            weights = w,
                                            fpc = map (\<lambda>i. f ! i) ii0,
                                            strat = st, nstrat = ms + 1, sclust = sc,
                                            clust_per_strat = cps,
                                            strat_for_clust = sfc,
                                            nclust = sum_list cps,
                                            ii = map (np_flatnonzero_eq sfc)
                                                   [0..<ms + 1]\<rparr>)))))"

subsection \<open>Replicate weights\<close>

text \<open>\<^verbatim>\<open>SurveyDesign._jackknife_rep_weights\<close>. The boolean masks \<^verbatim>\<open>self.strat == s\<close> and
  \<^verbatim>\<open>self.sclust == c\<close> must have the length of \<^verbatim>\<open>w\<close>. For \<open>nh = 1\<close> the factor
  \<^verbatim>\<open>nh / float(nh - 1)\<close> is a float division by zero.\<close>

definition jackknife_rep_weights :: "survey_design \<Rightarrow> nat \<Rightarrow> error + real list" where
  "jackknife_rep_weights d c =
     (if length (strat_for_clust d) \<le> c then Inl IndexError
      else
        let s = strat_for_clust d ! c
        in if length (clust_per_strat d) \<le> s then Inl IndexError
           else
             let nh = clust_per_strat d ! s;
                 w = weights d
             in if length (strat d) \<noteq> length w \<or> length (sclust d) \<noteq> length w
                then Inl IndexError
                else if nh = 1 then Inl NonFinite
                else
                  let w1 = map (\<lambda>i. if strat d ! i = s
                                     then w ! i * (real nh / (real nh - 1)) else w ! i)
                             [0..<length w]
                  in Inr (map (\<lambda>i. if sclust d ! i = c then 0 else w1 ! i)
                            [0..<length w]))"

text \<open>One stratum of the loop of \<^verbatim>\<open>SurveyDesign._bootstrap_weights\<close>, on the pair
  \<open>(w, clust_count)\<close>. \<open>draw\<close> is what \<^verbatim>\<open>np.random.choice(self.ii[s], size=nh - 1)\<close>
  returns; a drawn index beyond \<^verbatim>\<open>max(self.sclust)\<close> makes the count array too long to
  be added.\<close>

definition bootstrap_stratum ::
  "survey_design \<Rightarrow> nat list \<Rightarrow> nat \<Rightarrow> real list \<times> real list \<Rightarrow>
     error + (real list \<times> real list)" where
  "bootstrap_stratum d draw s st =
     (case st of (w, clust_count) \<Rightarrow>
        if length (clust_per_strat d) \<le> s then Inl IndexError
        else
          let nh = clust_per_strat d ! s
          in if length (strat d) \<noteq> length w then Inl IndexError
             else if nh = 0 then Inl NonFinite
             else
               let w1 = map (\<lambda>i. if strat d ! i = s
                                  then w ! i * ((real nh - 1) / real nh) else w ! i)
                          [0..<length w]
               in if nh = 1 then Inr (w1, clust_count)
                  else if length (ii d) \<le> s then Inl IndexError
                  else if ii d ! s = [] then Inl EmptySequence
                  else
                    (case py_max (sclust d) of
                       Inl e \<Rightarrow> Inl e
                     | Inr m \<Rightarrow>
                         let cnt = np_bincount draw (m + 1)
                         in if length cnt \<noteq> length clust_count then Inl ShapeMismatch
                            else Inr (w1, map2 (\<lambda>a b. a + real b) clust_count cnt)))"

text \<open>The loop over the strata \<open>ss\<close>, stopping at the first error.\<close>

fun bootstrap_strata ::
  "survey_design \<Rightarrow> (nat \<Rightarrow> nat list) \<Rightarrow> nat list \<Rightarrow> real list \<times> real list \<Rightarrow>
     error + (real list \<times> real list)" where
  "bootstrap_strata d draws [] st = Inr st"
| "bootstrap_strata d draws (s # ss) st =
     (case bootstrap_stratum d (draws s) s st of
        Inl e \<Rightarrow> Inl e
      | Inr st1 \<Rightarrow> bootstrap_strata d draws ss st1)"

text \<open>\<^verbatim>\<open>w *= clust_count[self.sclust]\<close>.\<close>

definition augment_weights :: "survey_design \<Rightarrow> real list \<Rightarrow> real list \<Rightarrow> error + real list" where
  "augment_weights d w clust_count =
     (if list_ex (\<lambda>c. length clust_count \<le> c) (sclust d) then Inl IndexError
      else if length (sclust d) \<noteq> length w then Inl ShapeMismatch
      else Inr (map2 (\<lambda>x c. x * clust_count ! c) w (sclust d)))"

text \<open>\<^verbatim>\<open>SurveyDesign._bootstrap_weights\<close>; \<open>draws s\<close> is the draw made for stratum \<open>s\<close>.\<close>

definition bootstrap_weights :: "survey_design \<Rightarrow> (nat \<Rightarrow> nat list) \<Rightarrow> error + real list" where
  "bootstrap_weights d draws =
     (case bootstrap_strata d draws [0..<nstrat d]
             (weights d, replicate (nclust d) 0) of
        Inl e \<Rightarrow> Inl e
      | Inr (w, clust_count) \<Rightarrow> augment_weights d w clust_count)"

text \<open>\<^verbatim>\<open>SurveyDesign._mean_bootstrap_weight\<close>. Its first statement reads
  \<^verbatim>\<open>self.design.nclust\<close>, and \<^verbatim>\<open>self\<close> is the \<^verbatim>\<open>SurveyDesign\<close>: no statement of the class
  assigns an attribute \<^verbatim>\<open>design\<close>, so the lookup raises \<^verbatim>\<open>AttributeError\<close>.\<close>

definition getattr_design :: "survey_design \<Rightarrow> error + survey_design" where
  "getattr_design d = Inl AttributeError"

text \<open>The body that follows the lookup: \<open>bsn\<close> passes over the strata, each scaling by
  \<^verbatim>\<open>((nh - 1) / nh) ** (1 / bsn)\<close> and drawing unless \<open>nh\<close> is 1 or 2, then the averaged
  counts. The power is a real power (\<open>powr\<close>); it is defined for a positive base only.\<close>

definition mean_bootstrap_stratum ::
  "survey_design \<Rightarrow> nat \<Rightarrow> nat list \<Rightarrow> nat \<Rightarrow> real list \<times> real list \<Rightarrow>
     error + (real list \<times> real list)" where
  "mean_bootstrap_stratum d bsn draw s st =
     (case st of (w, clust_count) \<Rightarrow>
        if length (clust_per_strat d) \<le> s then Inl IndexError
        else
          let nh = clust_per_strat d ! s
          in if length (strat d) \<noteq> length w then Inl IndexError
             else if nh = 0 \<or> bsn = 0 then Inl NonFinite
             else
               let fac = (if nh = 1 then 0
                          else ((real nh - 1) / real nh) powr (1 / real bsn));
                   w1 = map (\<lambda>i. if strat d ! i = s then w ! i * fac else w ! i)
                          [0..<length w]
               in if nh = 1 \<or> nh = 2 then Inr (w1, clust_count)
                  else if length (ii d) \<le> s then Inl IndexError
                  else if ii d ! s = [] then Inl EmptySequence
                  else
                    (case py_max (sclust d) of
                       Inl e \<Rightarrow> Inl e
                     | Inr m \<Rightarrow>
                         let cnt = np_bincount draw (m + 1)
                         in if length cnt \<noteq> length clust_count then Inl ShapeMismatch
                            else Inr (w1, map2 (\<lambda>a b. a + real b) clust_count cnt)))"

fun mean_bootstrap_strata ::
  "survey_design \<Rightarrow> nat \<Rightarrow> (nat \<Rightarrow> nat list) \<Rightarrow> nat list \<Rightarrow> real list \<times> real list \<Rightarrow>
     error + (real list \<times> real list)" where
  "mean_bootstrap_strata d bsn draws [] st = Inr st"
| "mean_bootstrap_strata d bsn draws (s # ss) st =
     (case mean_bootstrap_stratum d bsn (draws s) s st of
        Inl e \<Rightarrow> Inl e
      | Inr st1 \<Rightarrow> mean_bootstrap_strata d bsn draws ss st1)"

fun mean_bootstrap_passes ::
  "survey_design \<Rightarrow> nat \<Rightarrow> (nat \<Rightarrow> nat \<Rightarrow> nat list) \<Rightarrow> nat list \<Rightarrow> real list \<times> real list \<Rightarrow>
     error + (real list \<times> real list)" where
  "mean_bootstrap_passes d bsn draws [] st = Inr st"
| "mean_bootstrap_passes d bsn draws (b # bs) st =
     (case mean_bootstrap_strata d bsn (draws b) [0..<nstrat d] st of
        Inl e \<Rightarrow> Inl e
      | Inr st1 \<Rightarrow> mean_bootstrap_passes d bsn draws bs st1)"

text \<open>\<open>bsn\<close> is \<^verbatim>\<open>None\<close> unless the caller gives it; \<^verbatim>\<open>range(None)\<close> raises \<^verbatim>\<open>TypeError\<close>.\<close>

definition mean_bootstrap_weight ::
  "survey_design \<Rightarrow> nat option \<Rightarrow> (nat \<Rightarrow> nat \<Rightarrow> nat list) \<Rightarrow> error + real list" where
  "mean_bootstrap_weight d bsn draws =
     (case getattr_design d of
        Inl e \<Rightarrow> Inl e
      | Inr dd \<Rightarrow>
          (case bsn of
             None \<Rightarrow> Inl TypeError
           | Some n \<Rightarrow>
               (case mean_bootstrap_passes d n draws [0..<n]
                       (weights d, replicate (nclust dd) 0) of
                  Inl e \<Rightarrow> Inl e
                | Inr (w, clust_count) \<Rightarrow>
                    if n = 0 then Inl NonFinite
                    else augment_weights d w (map (\<lambda>x. x / real n) clust_count))))"

text \<open>\<^verbatim>\<open>SurveyDesign.get_rep_weights\<close>. \<open>c\<close> is the replicate or cluster index the callers
  of this module pass; \<^verbatim>\<open>self.rep_weights[:, c]\<close> is column \<open>c\<close>. \<open>draws b s\<close> is the draw
  of pass \<open>b\<close> (pass 0 for the plain bootstrap) in stratum \<open>s\<close>.\<close>

definition get_rep_weights ::
  "survey_design \<Rightarrow> nat \<Rightarrow> nat option \<Rightarrow> (nat \<Rightarrow> nat \<Rightarrow> nat list) \<Rightarrow> error + real list" where
  "get_rep_weights d c bsn draws =
     (case rep_weights d of
        Some rw \<Rightarrow>
          if list_ex (\<lambda>row. length row \<le> c) rw then Inl IndexError
          else Inr (map (\<lambda>row. row ! c) rw)
      | None \<Rightarrow>
          if cov_method d = ''jack'' then jackknife_rep_weights d c
          else if cov_method d = ''boot'' then bootstrap_weights d (draws 0)
          else mean_bootstrap_weight d bsn draws)"

subsection \<open>Arrays of floats\<close>

text \<open>The \<^verbatim>\<open>data\<close> argument of the statistic classes: an array of one or of two
  dimensions. The constructors keep a two-dimensional array and turn a one-dimensional
  one into a single column, \<^verbatim>\<open>data.reshape(len(data), 1)\<close>.\<close>

datatype ndarray = Array1 "real list" | Array2 "real list list"

fun data_matrix :: "ndarray \<Rightarrow> real list list" where
  "data_matrix (Array2 m) = m"
| "data_matrix (Array1 v) = map (\<lambda>x. [x]) v"

text \<open>\<^verbatim>\<open>shape[1]\<close> of a matrix (0 when it has no row: the list of rows does not record
  the width of an empty matrix).\<close>

definition ncols :: "real list list \<Rightarrow> nat" where
  "ncols m = (case m of [] \<Rightarrow> 0 | r # rs \<Rightarrow> length r)"

text \<open>\<^verbatim>\<open>np.dot(w, m)\<close> for a vector and a matrix: one weighted column sum per column.\<close>

definition np_dot :: "real list \<Rightarrow> real list list \<Rightarrow> error + real list" where
  "np_dot w m =
     (if length w \<noteq> length m then Inl ShapeMismatch
      else Inr (map (\<lambda>j. sum_list (map2 (\<lambda>x r. x * r ! j) w m)) [0..<ncols m]))"

text \<open>A row minus a vector, entry by entry.\<close>

definition row_sub :: "real list \<Rightarrow> real list \<Rightarrow> real list" where
  "row_sub r v = map2 (\<lambda>x y. x - y) r v"

text \<open>\<^verbatim>\<open>m.mean(0)\<close>: the mean of each column.\<close>

definition col_mean :: "real list list \<Rightarrow> real list" where
  "col_mean m = map (\<lambda>j. sum_list (map (\<lambda>r. r ! j) m) / real (length m)) [0..<ncols m]"

text \<open>\<^verbatim>\<open>np.dot(m.T, m)\<close> and \<^verbatim>\<open>np.diag\<close>.\<close>

definition gram :: "real list list \<Rightarrow> real list list" where
  "gram m = map (\<lambda>a. map (\<lambda>b. sum_list (map (\<lambda>r. r ! a * r ! b) m)) [0..<ncols m])
              [0..<ncols m]"

definition diag :: "real list list \<Rightarrow> real list" where
  "diag m = map (\<lambda>a. m ! a ! a) [0..<length m]"




subsection \<open>SurveyStat: the variance estimators\<close>

text \<open>A loop that appends one result per index to a list and stops at the first
  exception.\<close>

fun collect :: "(nat \<Rightarrow> error + 'a) \<Rightarrow> nat list \<Rightarrow> error + 'a list" where
  "collect f [] = Inr []"
| "collect f (c # cs) =
     (case f c of
        Inl e \<Rightarrow> Inl e
      | Inr x \<Rightarrow> (case collect f cs of Inl e \<Rightarrow> Inl e | Inr xs \<Rightarrow> Inr (x # xs)))"

text \<open>\<^verbatim>\<open>SurveyStat._bootstrap\<close>; \<open>stat\<close> is the \<^verbatim>\<open>_stat\<close> method of the subclass. It returns
  \<open>(est, vcov, stderr)\<close>. \<^verbatim>\<open>range(replicates)\<close> raises \<^verbatim>\<open>TypeError\<close> for \<^verbatim>\<open>None\<close>. With no
  replicate \<^verbatim>\<open>jdata\<close> is an empty one-dimensional array: \<^verbatim>\<open>jdata -= est\<close> fails to
  broadcast for more than one column, and otherwise the division by \<^verbatim>\<open>replicates\<close>
  gives \<^verbatim>\<open>nan\<close>.\<close>

definition bootstrap ::
  "(real list \<Rightarrow> error + real list) \<Rightarrow> survey_design \<Rightarrow> bool \<Rightarrow> nat option \<Rightarrow> nat option \<Rightarrow>
     (nat \<Rightarrow> nat \<Rightarrow> nat \<Rightarrow> nat list) \<Rightarrow> error + (real list \<times> real list list \<times> real list)" where
  "bootstrap stat d m replicates bsn draws =
     (case stat (weights d) of
        Inl e \<Rightarrow> Inl e
      | Inr est0 \<Rightarrow>
          (case replicates of
             None \<Rightarrow> Inl TypeError
           | Some n \<Rightarrow>
               (case collect (\<lambda>i. case get_rep_weights d i bsn (draws i) of
                                     Inl e \<Rightarrow> Inl e | Inr w \<Rightarrow> stat w) [0..<n] of
                  Inl e \<Rightarrow> Inl e
                | Inr jdata \<Rightarrow>
                    if n = 0 then
                      (if m \<and> 1 < length est0 then Inl ShapeMismatch else Inl NonFinite)
                    else
                      let jc = (if m then map (\<lambda>r. row_sub r est0) jdata
                                else map (\<lambda>r. row_sub r (col_mean jdata)) jdata);
                          vc = map (map (\<lambda>x. x / real n)) (gram jc)
                      in Inr (est0, vc, map sqrt (diag vc)))))"

text \<open>The replicate loop of \<^verbatim>\<open>SurveyStat._jackknife\<close>: \<open>k\<close> is \<^verbatim>\<open>nclust\<close>, or the number
  of columns of \<^verbatim>\<open>rep_weights\<close> when the design has no \<^verbatim>\<open>nclust\<close>.\<close>

definition jackknife_replicates ::
  "(real list \<Rightarrow> error + real list) \<Rightarrow> survey_design \<Rightarrow> (nat \<Rightarrow> nat \<Rightarrow> nat \<Rightarrow> nat list) \<Rightarrow>
     error + real list list" where
  "jackknife_replicates stat d draws =
     collect (\<lambda>c. case get_rep_weights d c None (draws c) of
                    Inl e \<Rightarrow> Inl e | Inr w \<Rightarrow> stat w)
       [0..<(case rep_weights d of None \<Rightarrow> nclust d | Some rw \<Rightarrow> ncols rw)]"

text \<open>\<^verbatim>\<open>jdata[idx, :] -= jdata[idx, :].mean(0)\<close>: the mean of the selected rows is taken
  first, then subtracted from each selected row.\<close>

definition center_rows :: "nat list \<Rightarrow> real list list \<Rightarrow> real list list" where
  "center_rows idx jd =
     (let mu = col_mean (map (\<lambda>i. jd ! i) idx)
      in map (\<lambda>i. if i \<in> set idx then row_sub (jd ! i) mu else jd ! i) [0..<length jd])"

text \<open>The loop \<^verbatim>\<open>for s in range(self.design.nstrat)\<close> over the strata \<open>ss\<close>.\<close>

fun center_strata :: "nat list list \<Rightarrow> nat list \<Rightarrow> real list list \<Rightarrow> error + real list list" where
  "center_strata iis [] jd = Inr jd"
| "center_strata iis (s # ss) jd =
     (if length iis \<le> s \<or> list_ex (\<lambda>i. length jd \<le> i) (iis ! s) then Inl IndexError
      else center_strata iis ss (center_rows (iis ! s) jd))"

text \<open>The centering step of \<^verbatim>\<open>_jackknife\<close>. Without a replicate \<^verbatim>\<open>jdata\<close> is an empty
  one-dimensional array, as in \<^verbatim>\<open>_bootstrap\<close>.\<close>

definition jackknife_center ::
  "survey_design \<Rightarrow> bool \<Rightarrow> real list \<Rightarrow> real list list \<Rightarrow> error + real list list" where
  "jackknife_center d m est0 jdata =
     (if m then
        (if jdata = [] \<and> 1 < length est0 then Inl ShapeMismatch
         else Inr (map (\<lambda>r. row_sub r est0) jdata))
      else if rep_weights d = None then center_strata (ii d) [0..<nstrat d] jdata
      else Inr (map (\<lambda>r. row_sub r (col_mean jdata)) jdata))"

text \<open>\<^verbatim>\<open>nh = clust_per_strat[strat_for_clust]\<close>, as floats: for each cluster, the number of
  clusters of its stratum.\<close>

definition cluster_nh :: "survey_design \<Rightarrow> error + real list" where
  "cluster_nh d =
     (if list_ex (\<lambda>s. length (clust_per_strat d) \<le> s) (strat_for_clust d) then Inl IndexError
      else Inr (map (\<lambda>s. real (clust_per_strat d ! s)) (strat_for_clust d)))"

text \<open>The local variable \<^verbatim>\<open>_pseudo\<close> of \<^verbatim>\<open>_jackknife\<close>:
  \<^verbatim>\<open>jdata + nh[:, None] * (np.dot(self.design.weights, self.data) - jdata)\<close>, on the centered
  \<^verbatim>\<open>jdata\<close>.\<close>

definition jackknife_pseudo ::
  "survey_design \<Rightarrow> real list list \<Rightarrow> real list \<Rightarrow> real list list \<Rightarrow> error + real list list" where
  "jackknife_pseudo d dat nh jdata =
     (case np_dot (weights d) dat of
        Inl e \<Rightarrow> Inl e
      | Inr tot \<Rightarrow>
          if length nh \<noteq> length jdata then Inl ShapeMismatch
          else Inr (map2 (\<lambda>n r. map2 (\<lambda>x t. x + n * (t - x)) r tot) nh jdata))"

text \<open>The scaling step of \<^verbatim>\<open>_jackknife\<close>. On the strata and cluster path \<^verbatim>\<open>_pseudo\<close> is
  computed and not used again; each row is multiplied by \<^verbatim>\<open>sqrt(1 - fpc)\<close> and by
  \<^verbatim>\<open>sqrt((nh - 1) / nh)\<close> of its cluster. With replicate weights \<^verbatim>\<open>nh\<close> is their number \<open>R\<close>,
  a Python integer, so that \<^verbatim>\<open>(nh - 1) / nh\<close> raises for \<open>R = 0\<close>.\<close>

definition jackknife_scale ::
  "survey_design \<Rightarrow> real list list \<Rightarrow> real list list \<Rightarrow> error + real list list" where
  "jackknife_scale d dat jdata =
     (case rep_weights d of
        None \<Rightarrow>
          (case cluster_nh d of
             Inl e \<Rightarrow> Inl e
           | Inr nh \<Rightarrow>
               (case jackknife_pseudo d dat nh jdata of
                  Inl e \<Rightarrow> Inl e
                | Inr pseudo \<Rightarrow>
                    if list_ex (\<lambda>n. n = 0) nh \<or> list_ex (\<lambda>f. 1 < f) (fpc d) then Inl NonFinite
                    else if length (fpc d) \<noteq> length jdata then Inl ShapeMismatch
                    else Inr (map (\<lambda>c. map (\<lambda>x. sqrt (1 - fpc d ! c) *
                                                sqrt ((nh ! c - 1) / nh ! c) * x) (jdata ! c))
                                [0..<length jdata])))
      | Some rw \<Rightarrow>
          if ncols rw = 0 then Inl ZeroDivisionError
          else Inr (map (map (\<lambda>x. x * sqrt ((real (ncols rw) - 1) / real (ncols rw)))) jdata))"

text \<open>\<^verbatim>\<open>SurveyStat._jackknife\<close>; it returns \<open>(est, vcov, stderr)\<close>. Where the last lines
  are reached \<^verbatim>\<open>jdata\<close> has two dimensions, so that \<^verbatim>\<open>vcov.ndim == 2\<close> and \<^verbatim>\<open>stderr\<close> is the
  root of the diagonal. The \<^verbatim>\<open>print\<close> statements are left out.\<close>

definition jackknife ::
  "(real list \<Rightarrow> error + real list) \<Rightarrow> survey_design \<Rightarrow> bool \<Rightarrow> real list list \<Rightarrow>
     (nat \<Rightarrow> nat \<Rightarrow> nat \<Rightarrow> nat list) \<Rightarrow> error + (real list \<times> real list list \<times> real list)" where
  "jackknife stat d m dat draws =
     (case stat (weights d) of
        Inl e \<Rightarrow> Inl e
      | Inr est0 \<Rightarrow>
          (case jackknife_replicates stat d draws of
             Inl e \<Rightarrow> Inl e
           | Inr jdata \<Rightarrow>
               (case jackknife_center d m est0 jdata of
                  Inl e \<Rightarrow> Inl e
                | Inr jc \<Rightarrow>
                    (case jackknife_scale d dat jc of
                       Inl e \<Rightarrow> Inl e
                     | Inr js \<Rightarrow> Inr (est0, gram js, map sqrt (diag (gram js)))))))"

subsection \<open>SurveyMean and SurveyTotal\<close>

text \<open>The attributes that the constructors of \<^verbatim>\<open>SurveyMean\<close> and \<^verbatim>\<open>SurveyTotal\<close> assign
  (with \<^verbatim>\<open>SurveyStat.__init__\<close> and the estimator they call).\<close>

record survey_stat =
  design :: survey_design
  mse :: bool
  data :: "real list list"
  est :: "real list"
  vcov :: "real list list"
  stderr :: "real list"

text \<open>\<^verbatim>\<open>SurveyMean._stat\<close>: \<^verbatim>\<open>np.dot(weights, self.data) / np.sum(weights)\<close>.\<close>

definition mean_stat :: "real list list \<Rightarrow> real list \<Rightarrow> error + real list" where
  "mean_stat dat w =
     (case np_dot w dat of
        Inl e \<Rightarrow> Inl e
      | Inr t \<Rightarrow>
          if sum_list w = 0 \<and> t \<noteq> [] then Inl NonFinite
          else Inr (map (\<lambda>x. x / sum_list w) t))"

text \<open>\<^verbatim>\<open>SurveyTotal._stat\<close>: \<^verbatim>\<open>np.dot(weights, self.data)\<close>.\<close>

definition total_stat :: "real list list \<Rightarrow> real list \<Rightarrow> error + real list" where
  "total_stat dat w = np_dot w dat"

definition SurveyMean_init ::
  "survey_design \<Rightarrow> ndarray \<Rightarrow> bool \<Rightarrow> nat option \<Rightarrow> nat option \<Rightarrow>
     (nat \<Rightarrow> nat \<Rightarrow> nat \<Rightarrow> nat list) \<Rightarrow> error + survey_stat" where
  "SurveyMean_init d data0 m replicates bsn draws =
     (let dat = data_matrix data0
      in case (if cov_method d = ''jack'' then jackknife (mean_stat dat) d m dat draws
               else bootstrap (mean_stat dat) d m replicates bsn draws) of
           Inl e \<Rightarrow> Inl e
         | Inr (e, v, s) \<Rightarrow>
             Inr \<lparr>design = d, mse = m, data = dat, est = e, vcov = v, stderr = s\<rparr>)"

definition SurveyTotal_init ::
  "survey_design \<Rightarrow> ndarray \<Rightarrow> nat option \<Rightarrow> bool \<Rightarrow> nat option \<Rightarrow>
     (nat \<Rightarrow> nat \<Rightarrow> nat \<Rightarrow> nat list) \<Rightarrow> error + survey_stat" where
  "SurveyTotal_init d data0 replicates m bsn draws =
     (let dat = data_matrix data0
      in case (if cov_method d = ''jack'' then jackknife (total_stat dat) d m dat draws
               else bootstrap (total_stat dat) d m replicates bsn draws) of
           Inl e \<Rightarrow> Inl e
         | Inr (e, v, s) \<Rightarrow>
             Inr \<lparr>design = d, mse = m, data = dat, est = e, vcov = v, stderr = s\<rparr>)"

subsection \<open>SurveyQuantile and SurveyMedian\<close>

text \<open>The two operands of \<^verbatim>\<open>self.quantile.max > 1\<close>: the attribute \<^verbatim>\<open>max\<close> of an array is a
  bound method (the source does not call it), and Python's comparison \<^verbatim>\<open>>\<close> between a method and a
  number raises \<^verbatim>\<open>TypeError\<close>.\<close>

datatype pyobj = Number real | BoundMethod string

fun py_gt :: "pyobj \<Rightarrow> pyobj \<Rightarrow> error + bool" where
  "py_gt (Number a) (Number b) = Inr (b < a)"
| "py_gt x y = Inl TypeError"

text \<open>The check of the levels in \<^verbatim>\<open>SurveyQuantile.__init__\<close>:
  \<^verbatim>\<open>if (self.quantile.min() < 0 or self.quantile.max > 1): raise ValueError(...)\<close>. \<^verbatim>\<open>or\<close>
  evaluates its second operand only when the first is false; \<^verbatim>\<open>min()\<close> of an empty
  array raises.\<close>

definition check_quantile :: "real list \<Rightarrow> error + unit" where
  "check_quantile q =
     (case q of
        [] \<Rightarrow> Inl EmptySequence
      | x # xs \<Rightarrow>
          if fold min xs x < 0 then Inl QuantileOutOfRange
          else
            (case py_gt (BoundMethod ''max'') (Number 1) of
               Inl e \<Rightarrow> Inl e
             | Inr b \<Rightarrow> if b then Inl QuantileOutOfRange else Inr ()))"

text \<open>The attributes that \<^verbatim>\<open>SurveyQuantile.__init__\<close> assigns.\<close>

record survey_quantile =
  q_design :: survey_design
  q_mse :: bool
  q_data :: "real list list"
  quantile :: "real list"
  n_cw :: nat
  q_est :: "real list list"
  q_std :: "real list list"

text \<open>\<^verbatim>\<open>SurveyQuantile.__init__\<close>. After the check, the loop over the columns calls
  \<^verbatim>\<open>self._jackknife()\<close> or \<^verbatim>\<open>self._bootstrap()\<close>, whose first statement is
  \<^verbatim>\<open>self._stat(self.design.weights)\<close>: \<^verbatim>\<open>SurveyQuantile._stat\<close> has a second required
  parameter \<^verbatim>\<open>col_index\<close>, so the call raises \<^verbatim>\<open>TypeError\<close>. Only a matrix without columns
  skips the loop. \<open>replicates\<close> and \<open>bsn\<close> are not used by the constructor.\<close>

definition SurveyQuantile_init ::
  "survey_design \<Rightarrow> ndarray \<Rightarrow> real list \<Rightarrow> 'r \<Rightarrow> bool \<Rightarrow> nat option \<Rightarrow> error + survey_quantile" where
  "SurveyQuantile_init d data0 qs replicates m bsn =
     (let dat = data_matrix data0
      in case check_quantile qs of
           Inl e \<Rightarrow> Inl e
         | Inr u \<Rightarrow>
             if ncols dat = 0
             then Inr \<lparr>q_design = d, q_mse = m, q_data = dat, quantile = qs,
                       n_cw = length (weights d), q_est = [], q_std = []\<rparr>
             else Inl TypeError)"

text \<open>\<^verbatim>\<open>SurveyMedian.__init__\<close>: it builds a \<^verbatim>\<open>SurveyQuantile\<close> for the level 0.5 (passing
  its \<^verbatim>\<open>cov_method\<close> argument in the position of \<^verbatim>\<open>replicates\<close>), then reads \<^verbatim>\<open>sp.est\<close> and
  \<^verbatim>\<open>sp.vcov\<close>. A \<^verbatim>\<open>SurveyQuantile\<close> whose loop did not run has no attribute \<^verbatim>\<open>vcov\<close>.\<close>

definition SurveyMedian_init ::
  "survey_design \<Rightarrow> ndarray \<Rightarrow> string \<Rightarrow> bool \<Rightarrow> error + (real list list \<times> real list list)" where
  "SurveyMedian_init d data0 method m =
     (case SurveyQuantile_init d data0 [1 / 2] method m None of
        Inl e \<Rightarrow> Inl e
      | Inr sp \<Rightarrow> Inl AttributeError)"



subsection \<open>Fixtures for the worked examples\<close>

text \<open>A run that never draws.\<close>

definition no_draws :: "nat \<Rightarrow> nat \<Rightarrow> nat list" where
  "no_draws b s = []"

definition no_draws_rep :: "nat \<Rightarrow> nat \<Rightarrow> nat \<Rightarrow> nat list" where
  "no_draws_rep i b s = []"

text \<open>The design of \<^verbatim>\<open>SurveyDesign(strata=[0,0,1,1], cluster=[0,1,2,3],
  weights=[1.,1.,1.,1.])\<close>: two strata of two clusters each.\<close>

definition example_design :: survey_design where
  "example_design =
     \<lparr>cov_method = ''jack'', rep_weights = None, weights = [1, 1, 1, 1],
      fpc = [0, 0, 0, 0], strat = [0, 0, 1, 1], nstrat = 2, sclust = [0, 1, 2, 3],
      clust_per_strat = [2, 2], strat_for_clust = [0, 0, 1, 1], nclust = 4,
      ii = [[0, 1], [2, 3]]\<rparr>"

text \<open>The design of \<^verbatim>\<open>SurveyDesign(strata=[0,0,1], cluster=[7,8,7], weights=[1.,1.,1.],
  nest=False)\<close>: without nesting, cluster 7 has observations in both strata.\<close>

definition spanning_design :: survey_design where
  "spanning_design =
     \<lparr>cov_method = ''jack'', rep_weights = None, weights = [1, 1, 1],
      fpc = [0, 0], strat = [0, 0, 1], nstrat = 2, sclust = [0, 1, 0],
      clust_per_strat = [2], strat_for_clust = [0, 0], nclust = 2,
      ii = [[0, 1], []]\<rparr>"

text \<open>The design of \<^verbatim>\<open>SurveyDesign(strata=[0,0,0], cluster=[0,1,2], weights=[1.,1.,1.],
  cov_method='mean_boot')\<close>: one stratum of three clusters.\<close>

definition mean_boot_design :: survey_design where
  "mean_boot_design =
     \<lparr>cov_method = ''mean_boot'', rep_weights = None, weights = [1, 1, 1],
      fpc = [0, 0, 0], strat = [0, 0, 0], nstrat = 1, sclust = [0, 1, 2],
      clust_per_strat = [3], strat_for_clust = [0, 0, 0], nclust = 3,
      ii = [[0, 1, 2]]\<rparr>"

subsection \<open>The pseudo-values as the specification words them\<close>

text \<open>The formula of the specification, \<^verbatim>\<open>pseudo = jdata + nh * (point_estimate - jdata)\<close>,
  row by row, to be compared with \<open>jackknife_pseudo\<close> above.\<close>

definition spec_pseudo :: "real list \<Rightarrow> real list \<Rightarrow> real list list \<Rightarrow> real list list" where
  "spec_pseudo nh point_estimate jdata =
     map2 (\<lambda>n r. map2 (\<lambda>x e. x + n * (e - x)) r point_estimate) nh jdata"

section \<open>Properties\<close>

subsection \<open>Recoding and counting\<close>

lemma first_index_less: "x \<in> set xs \<Longrightarrow> first_index x xs < length xs"
  by (induction xs) auto

lemma first_index_nth: "x \<in> set xs \<Longrightarrow> xs ! first_index x xs = x"
  by (induction xs) auto

lemma first_index_of_nth:
  "distinct xs \<Longrightarrow> k < length xs \<Longrightarrow> first_index (xs ! k) xs = k"
proof (induction xs arbitrary: k)
  case Nil
  then show ?case by simp
next
  case (Cons a xs)
  show ?case
  proof (cases k)
    case 0
    then show ?thesis by simp
  next
    case (Suc j)
    with Cons.prems have "xs ! j \<in> set xs" "a \<notin> set xs" by auto
    then have "xs ! j \<noteq> a" by auto
    with Cons Suc show ?thesis by auto
  qed
qed

lemma set_np_unique: "set (np_unique xs) = set xs"
  by (simp add: np_unique_def)

lemma distinct_np_unique: "distinct (np_unique xs)"
  by (simp add: np_unique_def)

lemma length_unique_inverse: "length (unique_inverse xs) = length xs"
  by (simp add: unique_inverse_def)

lemma set_unique_inverse: "set (unique_inverse xs) = {0..<length (np_unique xs)}"
proof
  show "set (unique_inverse xs) \<subseteq> {0..<length (np_unique xs)}"
    by (auto simp: unique_inverse_def set_np_unique intro!: first_index_less)
next
  show "{0..<length (np_unique xs)} \<subseteq> set (unique_inverse xs)"
  proof
    fix k assume "k \<in> {0..<length (np_unique xs)}"
    then have k: "k < length (np_unique xs)" by simp
    then have "np_unique xs ! k \<in> set xs"
      using set_np_unique nth_mem by blast
    moreover have "first_index (np_unique xs ! k) (np_unique xs) = k"
      using distinct_np_unique k by (rule first_index_of_nth)
    ultimately show "k \<in> set (unique_inverse xs)"
      unfolding unique_inverse_def by force
  qed
qed

lemma unique_inverse_eq_iff:
  assumes "i < length xs" "j < length xs"
  shows "unique_inverse xs ! i = unique_inverse xs ! j \<longleftrightarrow> xs ! i = xs ! j"
proof
  assume eq: "unique_inverse xs ! i = unique_inverse xs ! j"
  have mem: "xs ! i \<in> set (np_unique xs)" "xs ! j \<in> set (np_unique xs)"
    using assms by (simp_all add: set_np_unique)
  from eq assms have "first_index (xs ! i) (np_unique xs) = first_index (xs ! j) (np_unique xs)"
    by (simp add: unique_inverse_def)
  then have "np_unique xs ! first_index (xs ! i) (np_unique xs)
      = np_unique xs ! first_index (xs ! j) (np_unique xs)" by simp
  then show "xs ! i = xs ! j"
    using mem by (simp add: first_index_nth)
next
  assume "xs ! i = xs ! j"
  then show "unique_inverse xs ! i = unique_inverse xs ! j"
    using assms by (simp add: unique_inverse_def)
qed

lemma np_unique_dense: "set ys = {0..<k} \<Longrightarrow> np_unique ys = [0..<k]"
proof -
  assume "set ys = {0..<k}"
  then have "sorted_list_of_set (set ys) = [0..<k]" by simp
  then show ?thesis by (simp add: np_unique_def sorted_list_of_set_sort_remdups)
qed

lemma fold_max_ge: "y \<in> set (x # xs) \<Longrightarrow> y \<le> fold max xs (x::nat)"
proof -
  assume "y \<in> set (x # xs)"
  then have "y \<le> Max (set (x # xs))" by (intro Max_ge) auto
  then show ?thesis by (simp only: Max.set_eq_fold)
qed

lemma sum_list_bincount: "sum_list (np_bincount ys 0) = length ys"
proof (cases ys)
  case Nil
  then show ?thesis by (simp add: np_bincount_def)
next
  case (Cons y zs)
  define M where "M = fold max zs y"
  have sub: "set ys \<subseteq> {0..<Suc M}"
    using fold_max_ge[of _ y zs] Cons by (auto simp: M_def less_Suc_eq_le)
  have "sum_list (map (count_list ys) [0..<Suc M]) = sum (count_list ys) {0..<Suc M}"
    by (simp add: sum_list_distinct_conv_sum_set)
  also have "\<dots> = length ys"
    using sub by (intro sum_count_set) auto
  finally show ?thesis
    using Cons by (simp add: np_bincount_def M_def)
qed

subsection \<open>What a constructed design holds\<close>

lemmas design_defs = SurveyDesign_init_def check_args_def supplied_lengths_def
  recode_clusters_def unique_inverse_def
  unique_index_def np_unique_def np_bincount_def np_flatnonzero_eq_def Let_def

lemma check_args_lengths:
  assumes "check_args strata cluster wts fpc0 = Inr (s1, c1, w, f)"
  shows "length c1 = length s1 \<and> length w = length s1"
  using assms
  by (cases strata; cases cluster; cases wts)
     (auto simp: check_args_def supplied_lengths_def Let_def split: if_splits)

lemma recode_clusters_dense:
  assumes "recode_clusters nest (unique_inverse zs) st = Inr sc"
    and "length zs = length st"
  shows "length sc = length st \<and> (\<exists>k. set sc = {0..<k})"
proof (cases nest)
  case True
  with assms obtain mc where
    sc: "sc = unique_inverse (map2 (\<lambda>c s. c + (mc + 1) * s) (unique_inverse zs) st)"
    by (auto simp: recode_clusters_def split: sum.splits)
  show ?thesis
    unfolding sc using assms(2) set_unique_inverse
    by (auto simp: length_unique_inverse)
next
  case False
  with assms have "sc = unique_inverse zs" by (simp add: recode_clusters_def)
  then show ?thesis
    using assms(2) set_unique_inverse by (auto simp: length_unique_inverse)
qed

lemma unique_index_dense:
  "set sc = {0..<k} \<Longrightarrow> unique_index sc = map (\<lambda>c. first_index c sc) [0..<k]"
  by (simp add: unique_index_def np_unique_dense)

lemma py_max_Inr: "py_max xs = Inr m \<Longrightarrow> xs \<noteq> [] \<and> (\<forall>x\<in>set xs. x \<le> m)"
  by (cases xs) (auto simp: fold_max_ge)

lemma design_facts:
  assumes "SurveyDesign_init strata cluster wts None fpc0 method nest = Inr d"
  shows "rep_weights d = None \<and> cov_method d = method \<and>
    length (strat d) = length (weights d) \<and> length (sclust d) = length (weights d) \<and>
    strat d \<noteq> [] \<and> (\<forall>x\<in>set (strat d). x < nstrat d) \<and>
    set (sclust d) = {0..<nclust d} \<and>
    strat_for_clust d = map (\<lambda>c. strat d ! first_index c (sclust d)) [0..<nclust d] \<and>
    clust_per_strat d = np_bincount (strat_for_clust d) 0 \<and>
    ii d = map (np_flatnonzero_eq (strat_for_clust d)) [0..<nstrat d]"
proof -
  from assms obtain s1 c1 w f ms sc where
    ca: "check_args strata cluster wts fpc0 = Inr (s1, c1, w, f)" and
    pm: "py_max (unique_inverse s1) = Inr ms" and
    rc: "recode_clusters nest (unique_inverse c1) (unique_inverse s1) = Inr sc" and
    d: "d = \<lparr>cov_method = method, rep_weights = None, weights = w,
              fpc = map (\<lambda>i. f ! i) (unique_index sc),
              strat = unique_inverse s1, nstrat = ms + 1, sclust = sc,
              clust_per_strat = np_bincount (map (\<lambda>i. unique_inverse s1 ! i) (unique_index sc)) 0,
              strat_for_clust = map (\<lambda>i. unique_inverse s1 ! i) (unique_index sc),
              nclust = sum_list (np_bincount (map (\<lambda>i. unique_inverse s1 ! i) (unique_index sc)) 0),
              ii = map (np_flatnonzero_eq (map (\<lambda>i. unique_inverse s1 ! i) (unique_index sc)))
                     [0..<ms + 1]\<rparr>"
    by (auto simp: SurveyDesign_init_def Let_def split: if_splits sum.splits prod.splits)
  have len: "length c1 = length s1" "length w = length s1"
    using check_args_lengths[OF ca] by simp_all
  from recode_clusters_dense[OF rc] len obtain k where
    lsc: "length sc = length s1" and k: "set sc = {0..<k}"
    by (auto simp: length_unique_inverse)
  have ui: "unique_index sc = map (\<lambda>c. first_index c sc) [0..<k]"
    using k by (rule unique_index_dense)
  have nc: "nclust d = k"
    by (simp add: d sum_list_bincount ui)
  have st: "unique_inverse s1 \<noteq> []" "\<forall>x\<in>set (unique_inverse s1). x < ms + 1"
    using py_max_Inr[OF pm] by (auto simp: less_Suc_eq_le)
  show ?thesis
    using len lsc k st nc
    by (simp add: d ui length_unique_inverse sum_list_bincount)
qed

lemma set_flatnonzero: "set (np_flatnonzero_eq xs s) = {i. i < length xs \<and> xs ! i = s}"
  by (auto simp: np_flatnonzero_eq_def)

lemma design_strat_for_clust:
  assumes "SurveyDesign_init strata cluster wts None fpc0 method nest = Inr d"
  shows "length (strat_for_clust d) = nclust d \<and>
         (\<forall>c<nclust d. strat_for_clust d ! c < nstrat d)"
proof -
  note f = design_facts[OF assms]
  have len: "length (strat_for_clust d) = nclust d" using f by simp
  have "strat_for_clust d ! c < nstrat d" if c: "c < nclust d" for c
  proof -
    have "c \<in> set (sclust d)" using f c by simp
    then have "first_index c (sclust d) < length (strat d)"
      using first_index_less[of c "sclust d"] f by simp
    then have "strat d ! first_index c (sclust d) \<in> set (strat d)" by simp
    moreover have "strat_for_clust d ! c = strat d ! first_index c (sclust d)"
      using f c by simp
    ultimately show ?thesis using f by simp
  qed
  with len show ?thesis by simp
qed

lemma design_ii:
  assumes "SurveyDesign_init strata cluster wts None fpc0 method nest = Inr d"
  shows "length (ii d) = nstrat d \<and>
         (\<forall>s<nstrat d. set (ii d ! s) = {c. c < nclust d \<and> strat_for_clust d ! c = s})"
  using design_facts[OF assms] design_strat_for_clust[OF assms]
  by (simp add: set_flatnonzero)

text \<open>
  Claim C2. For a design built from strata, cluster and weights (no replicate weights):
  the cluster counts per stratum sum to \<open>nclust\<close>; \<open>strat_for_clust\<close> has one entry for
  each cluster index below \<open>nclust\<close>, and the entry is a stratum below \<open>nstrat\<close>; \<open>ii\<close>
  has one index list for each stratum, a cluster is in the list of stratum \<open>s\<close> exactly
  when \<open>strat_for_clust\<close> maps it to \<open>s\<close>, and these lists cover all cluster indices
  and are pairwise disjoint.
\<close>

theorem design_bookkeeping_partition:
  assumes "SurveyDesign_init strata cluster wts None fpc0 method nest = Inr d"
  shows "sum_list (clust_per_strat d) = nclust d \<and>
         length (strat_for_clust d) = nclust d \<and>
         (\<forall>c<nclust d. strat_for_clust d ! c < nstrat d) \<and>
         length (ii d) = nstrat d \<and>
         (\<forall>c<nclust d. \<forall>s<nstrat d. (c \<in> set (ii d ! s)) = (strat_for_clust d ! c = s)) \<and>
         (\<Union>s<nstrat d. set (ii d ! s)) = {0..<nclust d} \<and>
         (\<forall>s<nstrat d. \<forall>t<nstrat d. s \<noteq> t \<longrightarrow> set (ii d ! s) \<inter> set (ii d ! t) = {})"
proof -
  note f = design_facts[OF assms]
  note sfc = design_strat_for_clust[OF assms]
  note iis = design_ii[OF assms]
  have 1: "sum_list (clust_per_strat d) = nclust d"
    using f sfc by (simp add: sum_list_bincount)
  have 5: "\<forall>c<nclust d. \<forall>s<nstrat d. (c \<in> set (ii d ! s)) = (strat_for_clust d ! c = s)"
    using iis by simp
  have 6: "(\<Union>s<nstrat d. set (ii d ! s)) = {0..<nclust d}"
  proof
    show "(\<Union>s<nstrat d. set (ii d ! s)) \<subseteq> {0..<nclust d}"
      using iis by auto
    show "{0..<nclust d} \<subseteq> (\<Union>s<nstrat d. set (ii d ! s))"
    proof
      fix c assume "c \<in> {0..<nclust d}"
      then have c: "c < nclust d" by simp
      with sfc have "strat_for_clust d ! c < nstrat d" by simp
      moreover from c 5 this have "c \<in> set (ii d ! (strat_for_clust d ! c))" by simp
      ultimately show "c \<in> (\<Union>s<nstrat d. set (ii d ! s))" by blast
    qed
  qed
  have 7: "\<forall>s<nstrat d. \<forall>t<nstrat d. s \<noteq> t \<longrightarrow> set (ii d ! s) \<inter> set (ii d ! t) = {}"
    using iis by auto
  from 1 sfc iis 5 6 7 show ?thesis by simp
qed

theorem design_bookkeeping_partition_witness:
  "SurveyDesign_init (Some [0,0,1,1]) (Some [0,1,2,3]) (Some [1,1,1,1]) None None ''jack'' True
     = Inr example_design \<and>
   sum_list (clust_per_strat example_design) = nclust example_design \<and>
   length (strat_for_clust example_design) = nclust example_design \<and>
   (\<Union>s<nstrat example_design. set (ii example_design ! s)) = {0..<nclust example_design} \<and>
   set (ii example_design ! 0) \<inter> set (ii example_design ! 1) = {}"
proof -
  have h: "SurveyDesign_init (Some [0,0,1,1]) (Some [0,1,2,3]) (Some [1,1,1,1]) None None
             ''jack'' True = Inr example_design"
    by (simp add: design_defs example_design_def upt_rec)
  from design_bookkeeping_partition[OF h] have
    "sum_list (clust_per_strat example_design) = nclust example_design \<and>
     length (strat_for_clust example_design) = nclust example_design \<and>
     (\<Union>s<nstrat example_design. set (ii example_design ! s)) = {0..<nclust example_design}"
    by blast
  moreover have "set (ii example_design ! 0) \<inter> set (ii example_design ! 1) = {}"
    by (simp add: example_design_def)
  ultimately show ?thesis using h by simp
qed

subsection \<open>The worked examples are what the constructor builds\<close>

lemma example_design_init:
  "SurveyDesign_init (Some [0,0,1,1]) (Some [0,1,2,3]) (Some [1,1,1,1]) None None ''jack'' True
     = Inr example_design"
  by (simp add: design_defs example_design_def upt_rec)

lemma spanning_design_init:
  "SurveyDesign_init (Some [0,0,1]) (Some [7,8,7]) (Some [1,1,1]) None None ''jack'' False
     = Inr spanning_design"
  by (simp add: design_defs spanning_design_def upt_rec)

subsection \<open>Jackknife replicate weights\<close>

lemma length_bincount_gt: "x \<in> set xs \<Longrightarrow> x < length (np_bincount xs m)"
proof (cases xs)
  case Nil
  assume "x \<in> set xs"
  with Nil show ?thesis by simp
next
  case (Cons y ys)
  assume "x \<in> set xs"
  with Cons have "x \<le> fold max ys y" using fold_max_ge[of x y ys] by simp
  with Cons show ?thesis by (simp add: np_bincount_def)
qed

lemma combined_label_div: "a < m \<Longrightarrow> (a + m * s) div m = (s::nat)"
  by simp

lemma design_nest_stratum:
  assumes init: "SurveyDesign_init strata cluster wts None fpc0 method True = Inr d"
    and i: "i < length (weights d)" and j: "j < length (weights d)"
    and eq: "sclust d ! i = sclust d ! j"
  shows "strat d ! i = strat d ! j"
proof -
  from init obtain s1 c1 w f mc where
    ca: "check_args strata cluster wts fpc0 = Inr (s1, c1, w, f)" and
    pm: "py_max (unique_inverse c1) = Inr mc" and
    sc: "sclust d = unique_inverse
           (map2 (\<lambda>c s. c + (mc + 1) * s) (unique_inverse c1) (unique_inverse s1))" and
    st: "strat d = unique_inverse s1" and wd: "weights d = w"
    by (auto simp: SurveyDesign_init_def recode_clusters_def Let_def
             split: if_splits sum.splits prod.splits)
  let ?cl = "unique_inverse c1" and ?st = "unique_inverse s1"
  let ?comb = "map2 (\<lambda>c s. c + (mc + 1) * s) ?cl ?st"
  have len: "length c1 = length s1" "length w = length s1"
    using check_args_lengths[OF ca] by simp_all
  have lc: "length ?comb = length s1" by (simp add: length_unique_inverse len)
  have ij: "i < length s1" "j < length s1" using i j wd len by simp_all
  have "?comb ! i = ?comb ! j"
    using eq ij lc unique_inverse_eq_iff[of i ?comb j] by (simp add: sc)
  then have e: "?cl ! i + (mc + 1) * ?st ! i = ?cl ! j + (mc + 1) * ?st ! j"
    using ij by (simp add: length_unique_inverse len)
  have "?cl ! i \<in> set ?cl" "?cl ! j \<in> set ?cl"
    using ij by (simp_all add: length_unique_inverse len)
  then have b: "?cl ! i < mc + 1" "?cl ! j < mc + 1"
    using py_max_Inr[OF pm] by (auto simp: less_Suc_eq_le)
  have "(?cl ! i + (mc + 1) * ?st ! i) div (mc + 1) = ?st ! i"
       "(?cl ! j + (mc + 1) * ?st ! j) div (mc + 1) = ?st ! j"
    using b by (simp_all only: combined_label_div)
  with e have "?st ! i = ?st ! j" by simp
  then show ?thesis by (simp add: st)
qed

lemma design_cluster_stratum:
  assumes init: "SurveyDesign_init strata cluster wts None fpc0 method True = Inr d"
    and c: "c < nclust d" and i: "i < length (weights d)" and ic: "sclust d ! i = c"
  shows "strat d ! i = strat_for_clust d ! c"
proof -
  note f = design_facts[OF init]
  have mem: "c \<in> set (sclust d)" using f c by simp
  have j: "first_index c (sclust d) < length (weights d)"
    using first_index_less[OF mem] f by simp
  have "sclust d ! first_index c (sclust d) = c" using mem by (rule first_index_nth)
  with ic have "strat d ! i = strat d ! first_index c (sclust d)"
    using design_nest_stratum[OF init i j] by simp
  moreover have "strat_for_clust d ! c = strat d ! first_index c (sclust d)"
    using f c by simp
  ultimately show ?thesis by simp
qed

lemma jackknife_rep_weights_design:
  assumes init: "SurveyDesign_init strata cluster wts None fpc0 method nest = Inr d"
    and c: "c < nclust d"
    and nh: "clust_per_strat d ! (strat_for_clust d ! c) \<noteq> 1"
  shows "jackknife_rep_weights d c =
     Inr (map (\<lambda>i. if sclust d ! i = c then 0
                   else if strat d ! i = strat_for_clust d ! c
                   then weights d ! i *
                        (real (clust_per_strat d ! (strat_for_clust d ! c)) /
                         (real (clust_per_strat d ! (strat_for_clust d ! c)) - 1))
                   else weights d ! i) [0..<length (weights d)])"
proof -
  note f = design_facts[OF init]
  have lc: "c < length (strat_for_clust d)" using f c by simp
  then have "strat_for_clust d ! c \<in> set (strat_for_clust d)" by simp
  then have ls: "strat_for_clust d ! c < length (clust_per_strat d)"
    using f length_bincount_gt by simp
  show ?thesis
    using lc ls nh f by (simp add: jackknife_rep_weights_def Let_def)
qed

text \<open>
  Claim C1, as amended. For a design built from strata, cluster and weights with
  \<^verbatim>\<open>cov_method='jack'\<close>, a cluster index \<open>c\<close> below \<open>nclust\<close>, its stratum \<open>s\<close> and the
  number \<open>nh \<ge> 2\<close> of clusters counted for \<open>s\<close>: \<^verbatim>\<open>get_rep_weights\<close> returns a vector as long
  as \<open>weights\<close>, which is 0 at every observation of cluster \<open>c\<close>, the weight times
  \<open>nh / (nh - 1)\<close> at every other observation of stratum \<open>s\<close>, and the weight itself at
  every observation outside stratum \<open>s\<close> that is not in cluster \<open>c\<close>. With \<^verbatim>\<open>nest\<close> every
  observation of cluster \<open>c\<close> lies in stratum \<open>s\<close>, so that all weights outside the stratum
  are unchanged.
\<close>

theorem jackknife_rep_weights_values:
  assumes init: "SurveyDesign_init strata cluster wts None fpc0 ''jack'' nest = Inr d"
    and c: "c < nclust d"
    and s: "s = strat_for_clust d ! c"
    and nh: "nh = clust_per_strat d ! s" and nh2: "2 \<le> nh"
  shows "\<exists>w. get_rep_weights d c bsn draws = Inr w \<and> length w = length (weights d) \<and>
     (\<forall>i<length w.
        (sclust d ! i = c \<longrightarrow> w ! i = 0) \<and>
        (sclust d ! i \<noteq> c \<and> strat d ! i = s \<longrightarrow>
           w ! i = weights d ! i * (real nh / (real nh - 1))) \<and>
        (sclust d ! i \<noteq> c \<and> strat d ! i \<noteq> s \<longrightarrow> w ! i = weights d ! i) \<and>
        (nest \<and> sclust d ! i = c \<longrightarrow> strat d ! i = s))"
proof -
  note f = design_facts[OF init]
  have ne: "clust_per_strat d ! (strat_for_clust d ! c) \<noteq> 1" using nh nh2 s by simp
  have g: "get_rep_weights d c bsn draws = jackknife_rep_weights d c"
    using f by (simp add: get_rep_weights_def)
  have n: "nest \<Longrightarrow> i < length (weights d) \<Longrightarrow> sclust d ! i = c \<Longrightarrow> strat d ! i = s" for i
    using design_cluster_stratum[of strata cluster wts fpc0 "''jack''" d c i] init c s by simp
  show ?thesis
    unfolding g jackknife_rep_weights_design[OF init c ne]
    using n by (simp add: s nh)
qed

theorem jackknife_rep_weights_values_witness:
  "SurveyDesign_init (Some [0,0,1,1]) (Some [0,1,2,3]) (Some [1,1,1,1]) None None ''jack'' True
     = Inr example_design \<and>
   get_rep_weights example_design 0 None no_draws = Inr [0, 2, 1, 1]"
proof -
  let ?d = example_design
  note h = example_design_init
  have "\<exists>w. get_rep_weights ?d 0 None no_draws = Inr w \<and> length w = length (weights ?d) \<and>
     (\<forall>i<length w.
        (sclust ?d ! i = 0 \<longrightarrow> w ! i = 0) \<and>
        (sclust ?d ! i \<noteq> 0 \<and> strat ?d ! i = 0 \<longrightarrow>
           w ! i = weights ?d ! i * (real 2 / (real 2 - 1))) \<and>
        (sclust ?d ! i \<noteq> 0 \<and> strat ?d ! i \<noteq> 0 \<longrightarrow> w ! i = weights ?d ! i) \<and>
        (True \<and> sclust ?d ! i = 0 \<longrightarrow> strat ?d ! i = 0))"
    by (rule jackknife_rep_weights_values[OF h]) (simp_all add: example_design_def)
  then obtain w where g: "get_rep_weights ?d 0 None no_draws = Inr w" and l: "length w = 4"
    and a: "\<And>i. i < 4 \<Longrightarrow>
        (sclust ?d ! i = 0 \<longrightarrow> w ! i = 0) \<and>
        (sclust ?d ! i \<noteq> 0 \<and> strat ?d ! i = 0 \<longrightarrow> w ! i = weights ?d ! i * 2) \<and>
        (sclust ?d ! i \<noteq> 0 \<and> strat ?d ! i \<noteq> 0 \<longrightarrow> w ! i = weights ?d ! i)"
    by (auto simp: example_design_def)
  have "w ! 0 = 0" "w ! 1 = 2" "w ! 2 = 1" "w ! 3 = 1"
    using a[of 0] a[of 1] a[of 2] a[of 3] by (simp_all add: example_design_def)
  with l have "w = [0, 2, 1, 1]"
    by (intro nth_equalityI) (auto simp: less_Suc_eq numeral_eq_Suc)
  with g h show ?thesis by simp
qed

text \<open>
  Claim C1 as first stated has the weights of all observations outside stratum \<open>s\<close>
  unchanged. Without \<^verbatim>\<open>nest\<close> a cluster can have observations in two strata: in
  \<open>spanning_design\<close> cluster 0 is counted in stratum 0, which has two clusters; its
  observation 2 lies in stratum 1, and its replicate weight is 0, not the weight 1.
\<close>

theorem jackknife_rep_weights_counterexample:
  "SurveyDesign_init (Some [0,0,1]) (Some [7,8,7]) (Some [1,1,1]) None None ''jack'' False
     = Inr spanning_design \<and>
   clust_per_strat spanning_design ! (strat_for_clust spanning_design ! 0) = 2 \<and>
   strat spanning_design ! 2 \<noteq> strat_for_clust spanning_design ! 0 \<and>
   weights spanning_design ! 2 = 1 \<and>
   get_rep_weights spanning_design 0 None no_draws = Inr [0, 2, 0]"
  by (simp add: spanning_design_init)
     (simp add: spanning_design_def get_rep_weights_def jackknife_rep_weights_def upt_rec)

subsection \<open>Construction of a design: errors and defaults\<close>

lemma remdups_single_iff:
  "v \<noteq> [] \<Longrightarrow> (length (remdups v) \<noteq> 1) = (\<exists>a\<in>set v. \<exists>b\<in>set v. a \<noteq> b)"
proof -
  assume ne: "v \<noteq> []"
  have "length (remdups v) = card (set v)" by (simp add: length_remdups_card_conv)
  moreover have "(card (set v) = 1) = (\<exists>x. set v = {x})" by (simp add: card_1_singleton_iff)
  moreover have "(\<exists>x. set v = {x}) = (\<not> (\<exists>a\<in>set v. \<exists>b\<in>set v. a \<noteq> b))"
  proof
    assume "\<exists>x. set v = {x}"
    then show "\<not> (\<exists>a\<in>set v. \<exists>b\<in>set v. a \<noteq> b)" by auto
  next
    assume a: "\<not> (\<exists>a\<in>set v. \<exists>b\<in>set v. a \<noteq> b)"
    from ne obtain x where "x \<in> set v" by (cases v) auto
    with a have "set v = {x}" by auto
    then show "\<exists>x. set v = {x}" ..
  qed
  ultimately show ?thesis by simp
qed

lemma supplied_lengths_Nil:
  "(supplied_lengths s c w = []) = (s = None \<and> c = None \<and> w = None)"
  by (cases s; cases c; cases w) (simp_all add: supplied_lengths_def)

lemma check_args_Inl:
  "check_args s c w f = Inl e \<Longrightarrow> is_config_error e"
  by (auto simp: check_args_def Let_def split: if_splits)

lemma check_args_fails_iff:
  "(\<exists>e. check_args s c w f = Inl e) =
     ((s = None \<and> c = None \<and> w = None) \<or>
      (\<exists>a\<in>set (supplied_lengths s c w). \<exists>b\<in>set (supplied_lengths s c w). a \<noteq> b))"
proof (cases "s = None \<and> c = None \<and> w = None")
  case True
  then show ?thesis by (simp add: check_args_def)
next
  case False
  then have ne: "supplied_lengths s c w \<noteq> []" by (simp add: supplied_lengths_Nil)
  show ?thesis
    using False remdups_single_iff[OF ne] by (auto simp: check_args_def Let_def)
qed

lemma check_args_Inr:
  assumes "supplied_lengths s c w \<noteq> []" and "\<forall>l\<in>set (supplied_lengths s c w). l = n"
  shows "check_args s c w f =
     Inr (case s of None \<Rightarrow> replicate n 1 | Some x \<Rightarrow> x,
          case c of None \<Rightarrow> replicate n 1 | Some x \<Rightarrow> x,
          case w of None \<Rightarrow> replicate n 1 | Some x \<Rightarrow> x,
          case f of None \<Rightarrow> replicate n 0 | Some x \<Rightarrow> x)"
proof -
  have ne: "\<not> (s = None \<and> c = None \<and> w = None)"
    using assms(1) by (simp add: supplied_lengths_Nil)
  have "a = b" if "a \<in> set (supplied_lengths s c w)" "b \<in> set (supplied_lengths s c w)"
    for a b
  proof -
    from that assms(2) have "a = n" "b = n" by blast+
    then show ?thesis by simp
  qed
  then have "\<not> (\<exists>a\<in>set (supplied_lengths s c w). \<exists>b\<in>set (supplied_lengths s c w). a \<noteq> b)"
    by blast
  then have one: "length (remdups (supplied_lengths s c w)) = 1"
    using remdups_single_iff[OF assms(1)] by simp
  have "hd (supplied_lengths s c w) \<in> set (supplied_lengths s c w)"
    using assms(1) by simp
  then have "hd (supplied_lengths s c w) = n" using assms(2) by blast
  then show ?thesis
    using ne one by (simp add: check_args_def Let_def)
qed

lemma init_strata_path_error:
  assumes m: "m \<in> set [''boot'', ''mean_boot'', ''jack'']"
  shows "(\<exists>e. SurveyDesign_init s c w None f m nest = Inl e \<and> is_config_error e) =
         (\<exists>e. check_args s c w f = Inl e)"
proof (cases "check_args s c w f")
  case (Inl e)
  then show ?thesis
    using m check_args_Inl[OF Inl] by (auto simp: SurveyDesign_init_def)
next
  case (Inr t)
  have "\<not> is_config_error e" if "SurveyDesign_init s c w None f m nest = Inl e" for e
  proof -
    from that Inr m have "e = EmptySequence \<or> e = IndexError"
      by (cases t; cases "unique_inverse (fst t)"; cases "unique_inverse (fst (snd t))")
         (auto simp: SurveyDesign_init_def recode_clusters_def Let_def
               split: if_splits sum.splits prod.splits)
    then show ?thesis by auto
  qed
  with Inr show ?thesis by auto
qed

lemma design_config_error_iff:
  "(\<exists>e. SurveyDesign_init s c w r f m nest = Inl e \<and> is_config_error e) =
     (m \<notin> set [''boot'', ''mean_boot'', ''jack''] \<or>
      (r \<noteq> None \<and> (s \<noteq> None \<or> c \<noteq> None)) \<or>
      (r = None \<and> s = None \<and> c = None \<and> w = None) \<or>
      (\<exists>a\<in>set (supplied_lengths s c w). \<exists>b\<in>set (supplied_lengths s c w). a \<noteq> b))"
proof (cases "m \<in> set [''boot'', ''mean_boot'', ''jack'']")
  case False
  then show ?thesis by (simp add: SurveyDesign_init_def)
next
  case m: True
  show ?thesis
  proof (cases r)
    case None
    show ?thesis
      unfolding None init_strata_path_error[OF m] check_args_fails_iff
      using m by auto
  next
    case (Some rw)
    show ?thesis
    proof (cases "s \<noteq> None \<or> c \<noteq> None")
      case True
      with m Some show ?thesis by (auto simp: SurveyDesign_init_def)
    next
      case False
      then have "\<not> (\<exists>a\<in>set (supplied_lengths s c w). \<exists>b\<in>set (supplied_lengths s c w). a \<noteq> b)"
        by (cases w) (auto simp: supplied_lengths_def)
      with m Some False show ?thesis by (auto simp: SurveyDesign_init_def)
    qed
  qed
qed

lemma py_max_nonempty: "xs \<noteq> [] \<Longrightarrow> \<exists>m. py_max xs = Inr m"
  by (cases xs) simp_all

lemma unique_index_less: "i \<in> set (unique_index xs) \<Longrightarrow> i < length xs"
  by (auto simp: unique_index_def set_np_unique intro: first_index_less)

lemma recode_clusters_nonempty:
  assumes "clust \<noteq> []"
  shows "\<exists>sc. recode_clusters nest clust st = Inr sc"
  using py_max_nonempty[OF assms] by (auto simp: recode_clusters_def)

lemma design_strata_path_success:
  assumes m: "m \<in> set [''boot'', ''mean_boot'', ''jack'']"
    and ne: "supplied_lengths s c w \<noteq> []"
    and eq: "\<forall>l\<in>set (supplied_lengths s c w). l = n"
    and pos: "0 < n"
    and fl: "case f of None \<Rightarrow> True | Some x \<Rightarrow> n \<le> length x"
  shows "\<exists>d. SurveyDesign_init s c w None f m nest = Inr d \<and>
     weights d = (case w of None \<Rightarrow> replicate n 1 | Some x \<Rightarrow> x) \<and>
     strat d = unique_inverse (case s of None \<Rightarrow> replicate n 1 | Some x \<Rightarrow> x) \<and>
     (\<not> nest \<longrightarrow> sclust d = unique_inverse (case c of None \<Rightarrow> replicate n 1 | Some x \<Rightarrow> x)) \<and>
     (f = None \<longrightarrow> fpc d = replicate (nclust d) 0)"
proof -
  define s1 where "s1 = (case s of None \<Rightarrow> replicate n 1 | Some x \<Rightarrow> x)"
  define c1 where "c1 = (case c of None \<Rightarrow> replicate n 1 | Some x \<Rightarrow> x)"
  define w1 where "w1 = (case w of None \<Rightarrow> replicate n 1 | Some x \<Rightarrow> x)"
  define f1 where "f1 = (case f of None \<Rightarrow> replicate n 0 | Some x \<Rightarrow> x)"
  have ca: "check_args s c w f = Inr (s1, c1, w1, f1)"
    unfolding s1_def c1_def w1_def f1_def using ne eq by (rule check_args_Inr)
  have ls: "length s1 = n"
    using eq by (cases s) (auto simp: s1_def supplied_lengths_def)
  have lc: "length c1 = n"
    using eq by (cases c) (auto simp: c1_def supplied_lengths_def)
  have lf: "n \<le> length f1"
    using fl by (cases f) (auto simp: f1_def)
  let ?st = "unique_inverse s1" and ?cl = "unique_inverse c1"
  have "?st \<noteq> []" using ls pos length_unique_inverse[of s1] by auto
  then obtain ms where pm: "py_max ?st = Inr ms" using py_max_nonempty by blast
  have "?cl \<noteq> []" using lc pos length_unique_inverse[of c1] by auto
  then obtain sc where rc: "recode_clusters nest ?cl ?st = Inr sc"
    using recode_clusters_nonempty by blast
  have lsc: "length sc = n"
    using recode_clusters_dense[OF rc] ls lc by (simp add: length_unique_inverse)
  have "i < length f1" if "i \<in> set (unique_index sc)" for i
    using unique_index_less[OF that] lsc lf by simp
  then have "\<forall>i\<in>set (unique_index sc). i < length f1" by blast
  then have ok: "\<not> list_ex (\<lambda>i. length f1 \<le> i) (unique_index sc)"
    by (simp add: list_ex_iff not_le)
  define d where "d = \<lparr>cov_method = m, rep_weights = None, weights = w1,
      fpc = map (\<lambda>i. f1 ! i) (unique_index sc), strat = ?st, nstrat = ms + 1, sclust = sc,
      clust_per_strat = np_bincount (map (\<lambda>i. ?st ! i) (unique_index sc)) 0,
      strat_for_clust = map (\<lambda>i. ?st ! i) (unique_index sc),
      nclust = sum_list (np_bincount (map (\<lambda>i. ?st ! i) (unique_index sc)) 0),
      ii = map (np_flatnonzero_eq (map (\<lambda>i. ?st ! i) (unique_index sc))) [0..<ms + 1]\<rparr>"
  have init: "SurveyDesign_init s c w None f m nest = Inr d"
    using m ca pm rc ok by (simp add: SurveyDesign_init_def Let_def d_def)
  have nc: "nclust d = length (unique_index sc)"
    by (simp add: d_def sum_list_bincount)
  have fz: "fpc d = replicate (nclust d) 0" if "f = None"
  proof -
    have "map (\<lambda>i. f1 ! i) (unique_index sc) = map (\<lambda>i. 0) (unique_index sc)"
      using that unique_index_less[of _ sc] lsc by (auto simp: f1_def)
    then show ?thesis by (simp add: d_def map_replicate_const sum_list_bincount)
  qed
  have nn: "sclust d = ?cl" if "\<not> nest"
    using rc that by (simp add: recode_clusters_def d_def)
  show ?thesis
    using init fz nn by (auto simp: d_def s1_def c1_def w1_def)
qed

lemma design_rep_path_success:
  assumes m: "m \<in> set [''boot'', ''mean_boot'', ''jack'']"
  shows "\<exists>d. SurveyDesign_init None None w (Some rw) f m nest = Inr d \<and>
     rep_weights d = Some rw \<and>
     weights d = (case w of None \<Rightarrow> replicate (length rw) 1 | Some x \<Rightarrow> x)"
  using m by (auto simp: SurveyDesign_init_def)

text \<open>
  Claim C3, as amended. (1) The constructor raises one of its four configuration errors
  exactly when the method is not recognized, or \<^verbatim>\<open>rep_weights\<close> comes with strata or
  cluster, or none of strata, cluster, weights and \<^verbatim>\<open>rep_weights\<close> is supplied, or two of
  the supplied arrays among strata, cluster and weights differ in length. (2) Without
  \<^verbatim>\<open>rep_weights\<close>, when the method is recognized and the supplied arrays have the common
  length \<open>n > 0\<close>, and \<^verbatim>\<open>fpc\<close>, if supplied, has at least \<open>n\<close> entries: \<^verbatim>\<open>_check_args\<close>
  returns the arrays with each absent one of strata, cluster and weights replaced by
  \<open>n\<close> ones and an absent \<^verbatim>\<open>fpc\<close> by \<open>n\<close> zeros, and the construction succeeds with these
  weights, with the strata recoded from these labels, and with a zero \<^verbatim>\<open>fpc\<close> for every
  cluster when none was supplied. (3) With \<^verbatim>\<open>rep_weights\<close> and neither strata nor cluster,
  the construction succeeds, absent weights being one 1 for each row of \<^verbatim>\<open>rep_weights\<close>.
\<close>

theorem design_construction_outcome:
  "((\<exists>e. SurveyDesign_init s c w r f m nest = Inl e \<and> is_config_error e) =
      (m \<notin> set [''boot'', ''mean_boot'', ''jack''] \<or>
       (r \<noteq> None \<and> (s \<noteq> None \<or> c \<noteq> None)) \<or>
       (r = None \<and> s = None \<and> c = None \<and> w = None) \<or>
       (\<exists>a\<in>set (supplied_lengths s c w). \<exists>b\<in>set (supplied_lengths s c w). a \<noteq> b))) \<and>
   (m \<in> set [''boot'', ''mean_boot'', ''jack''] \<and> r = None \<and>
    supplied_lengths s c w \<noteq> [] \<and> (\<forall>l\<in>set (supplied_lengths s c w). l = n) \<and> 0 < n \<and>
    (case f of None \<Rightarrow> True | Some x \<Rightarrow> n \<le> length x) \<longrightarrow>
      check_args s c w f =
        Inr (case s of None \<Rightarrow> replicate n 1 | Some x \<Rightarrow> x,
             case c of None \<Rightarrow> replicate n 1 | Some x \<Rightarrow> x,
             case w of None \<Rightarrow> replicate n 1 | Some x \<Rightarrow> x,
             case f of None \<Rightarrow> replicate n 0 | Some x \<Rightarrow> x) \<and>
      (\<exists>d. SurveyDesign_init s c w r f m nest = Inr d \<and>
         weights d = (case w of None \<Rightarrow> replicate n 1 | Some x \<Rightarrow> x) \<and>
         strat d = unique_inverse (case s of None \<Rightarrow> replicate n 1 | Some x \<Rightarrow> x) \<and>
         (\<not> nest \<longrightarrow>
            sclust d = unique_inverse (case c of None \<Rightarrow> replicate n 1 | Some x \<Rightarrow> x)) \<and>
         (f = None \<longrightarrow> fpc d = replicate (nclust d) 0))) \<and>
   (m \<in> set [''boot'', ''mean_boot'', ''jack''] \<and> r = Some rw \<and> s = None \<and> c = None \<longrightarrow>
      (\<exists>d. SurveyDesign_init s c w r f m nest = Inr d \<and> rep_weights d = Some rw \<and>
         weights d = (case w of None \<Rightarrow> replicate (length rw) 1 | Some x \<Rightarrow> x)))"
proof (intro conjI impI)
  show "(\<exists>e. SurveyDesign_init s c w r f m nest = Inl e \<and> is_config_error e) =
      (m \<notin> set [''boot'', ''mean_boot'', ''jack''] \<or>
       (r \<noteq> None \<and> (s \<noteq> None \<or> c \<noteq> None)) \<or>
       (r = None \<and> s = None \<and> c = None \<and> w = None) \<or>
       (\<exists>a\<in>set (supplied_lengths s c w). \<exists>b\<in>set (supplied_lengths s c w). a \<noteq> b))"
    by (rule design_config_error_iff)
next
  assume a: "m \<in> set [''boot'', ''mean_boot'', ''jack''] \<and> r = None \<and>
    supplied_lengths s c w \<noteq> [] \<and> (\<forall>l\<in>set (supplied_lengths s c w). l = n) \<and> 0 < n \<and>
    (case f of None \<Rightarrow> True | Some x \<Rightarrow> n \<le> length x)"
  then show "check_args s c w f =
        Inr (case s of None \<Rightarrow> replicate n 1 | Some x \<Rightarrow> x,
             case c of None \<Rightarrow> replicate n 1 | Some x \<Rightarrow> x,
             case w of None \<Rightarrow> replicate n 1 | Some x \<Rightarrow> x,
             case f of None \<Rightarrow> replicate n 0 | Some x \<Rightarrow> x)"
    by (intro check_args_Inr) simp_all
  from a have r: "r = None" by simp
  from a show "\<exists>d. SurveyDesign_init s c w r f m nest = Inr d \<and>
         weights d = (case w of None \<Rightarrow> replicate n 1 | Some x \<Rightarrow> x) \<and>
         strat d = unique_inverse (case s of None \<Rightarrow> replicate n 1 | Some x \<Rightarrow> x) \<and>
         (\<not> nest \<longrightarrow>
            sclust d = unique_inverse (case c of None \<Rightarrow> replicate n 1 | Some x \<Rightarrow> x)) \<and>
         (f = None \<longrightarrow> fpc d = replicate (nclust d) 0)"
    unfolding r by (intro design_strata_path_success) simp_all
next
  assume a: "m \<in> set [''boot'', ''mean_boot'', ''jack''] \<and> r = Some rw \<and> s = None \<and> c = None"
  then have e: "r = Some rw" "s = None" "c = None" by simp_all
  from a show "\<exists>d. SurveyDesign_init s c w r f m nest = Inr d \<and> rep_weights d = Some rw \<and>
         weights d = (case w of None \<Rightarrow> replicate (length rw) 1 | Some x \<Rightarrow> x)"
    unfolding e by (intro design_rep_path_success) simp
qed

theorem design_construction_outcome_witness:
  "SurveyDesign_init (Some [0,0,1,1]) (Some [0,1,2,3]) None None None ''jack'' True
     = Inr example_design \<and>
   check_args (Some [0,0,1,1]) (Some [0,1,2,3]) None None
     = Inr ([0,0,1,1], [0,1,2,3], [1,1,1,1], [0,0,0,0]) \<and>
   SurveyDesign_init (Some [0]) (Some [0,1]) None None None ''jack'' True
     = Inl LengthsIncompatible \<and>
   SurveyDesign_init None None None (Some [[1,2],[3,4]]) None ''boot'' True
     = Inr \<lparr>cov_method = ''boot'', rep_weights = Some [[1,2],[3,4]], weights = [1, 1],
            fpc = [], strat = [], nstrat = 0, sclust = [], clust_per_strat = [],
            strat_for_clust = [], nclust = 0, ii = []\<rparr>"
proof -
  have 1: "''jack'' \<in> set [''boot'', ''mean_boot'', ''jack''] \<and> (None :: real list list option) = None \<and>
    supplied_lengths (Some [0,0,1,1]) (Some [0,1,2,3]) None \<noteq> [] \<and>
    (\<forall>l\<in>set (supplied_lengths (Some [0,0,1,1]) (Some [0,1,2,3]) None). l = 4) \<and> 0 < (4::nat) \<and>
    (case (None :: real list option) of None \<Rightarrow> True | Some x \<Rightarrow> 4 \<le> length x)"
    by (simp add: supplied_lengths_def)
  have 2: "''boot'' \<in> set [''boot'', ''mean_boot'', ''jack''] \<and>
    Some [[1,2],[3,4::real]] = Some [[1,2],[3,4]] \<and>
    (None :: int list option) = None \<and> (None :: int list option) = None"
    by simp
  note t1 = design_construction_outcome[of "Some [0,0,1,1]" "Some [0,1,2,3]" None None None
      "''jack''" True 4 "[]", THEN conjunct2, THEN conjunct1, rule_format, OF 1]
  note t2 = design_construction_outcome[of None None None "Some [[1,2],[3,4]]" None
      "''boot''" True 0 "[[1,2],[3,4]]", THEN conjunct2, THEN conjunct2, rule_format, OF 2]
  note t3 = design_construction_outcome[of "Some [0]" "Some [0,1]" None None None
      "''jack''" True 0 "[]", THEN conjunct1]
  have a: "SurveyDesign_init (Some [0,0,1,1]) (Some [0,1,2,3]) None None None ''jack'' True
     = Inr example_design"
    by (simp add: design_defs example_design_def upt_rec)
  have b: "check_args (Some [0,0,1,1]) (Some [0,1,2,3]) None None
     = Inr ([0,0,1,1], [0,1,2,3], [1,1,1,1], [0,0,0,0])"
    using t1 by (simp add: numeral_eq_Suc)
  have c: "SurveyDesign_init (Some [0]) (Some [0,1]) None None None ''jack'' True
     = Inl LengthsIncompatible"
    using t3 by (simp add: design_defs)
  have d: "SurveyDesign_init None None None (Some [[1,2],[3,4]]) None ''boot'' True
     = Inr \<lparr>cov_method = ''boot'', rep_weights = Some [[1,2],[3,4]], weights = [1, 1],
            fpc = [], strat = [], nstrat = 0, sclust = [], clust_per_strat = [],
            strat_for_clust = [], nclust = 0, ii = []\<rparr>"
    using t2 by (simp add: SurveyDesign_init_def)
  from a b c d show ?thesis by simp
qed

text \<open>
  Claim C3 as first stated promises success whenever none of the four conditions
  holds. For an empty strata array none holds (the method is recognized, one array
  of length 0 is supplied), and the constructor fails in \<^verbatim>\<open>max(self.strat)\<close>,
  with the \<^verbatim>\<open>ValueError\<close> of \<^verbatim>\<open>max\<close> on an empty array, which is none of its four
  configuration errors.
\<close>

theorem design_construction_counterexample:
  "SurveyDesign_init (Some []) None None None None ''jack'' True = Inl EmptySequence \<and>
   \<not> is_config_error EmptySequence \<and>
   ''jack'' \<in> set [''boot'', ''mean_boot'', ''jack''] \<and>
   supplied_lengths (Some []) None None = [0]"
  by (simp add: design_defs)

subsection \<open>Mean-bootstrap replicate weights\<close>

lemma mean_boot_design_init:
  "SurveyDesign_init (Some [0,0,0]) (Some [0,1,2]) (Some [1,1,1]) None None ''mean_boot'' True
     = Inr mean_boot_design"
  by (simp add: design_defs mean_boot_design_def upt_rec)

lemma mean_bootstrap_weight_fails: "mean_bootstrap_weight d bsn draws = Inl AttributeError"
  by (simp add: mean_bootstrap_weight_def getattr_design_def)

text \<open>
  Claim C6 (not met by the code). For a design built from strata, cluster and weights
  with \<^verbatim>\<open>cov_method='mean_boot'\<close>, \<^verbatim>\<open>get_rep_weights\<close> returns no weight vector: for every
  index, every \<open>bsn\<close> and all draws it ends in the \<^verbatim>\<open>AttributeError\<close> of
  \<^verbatim>\<open>self.design.nclust\<close>, the first statement of \<^verbatim>\<open>_mean_bootstrap_weight\<close>.
\<close>

theorem mean_boot_rep_weights_fail:
  assumes "SurveyDesign_init strata cluster wts None fpc0 ''mean_boot'' nest = Inr d"
  shows "get_rep_weights d c bsn draws = Inl AttributeError"
  using design_facts[OF assms]
  by (simp add: get_rep_weights_def mean_bootstrap_weight_fails)

theorem mean_boot_rep_weights_fail_witness:
  "SurveyDesign_init (Some [0,0,0]) (Some [0,1,2]) (Some [1,1,1]) None None ''mean_boot'' True
     = Inr mean_boot_design \<and>
   get_rep_weights mean_boot_design 0 (Some 2) no_draws = Inl AttributeError"
  using mean_boot_rep_weights_fail[OF mean_boot_design_init, of 0 "Some 2" no_draws]
    mean_boot_design_init
  by simp

subsection \<open>Centering of the jackknife replicates\<close>

lemma length_center_rows: "length (center_rows idx jd) = length jd"
  by (simp add: center_rows_def Let_def)

lemma nth_center_rows:
  "i < length jd \<Longrightarrow>
   center_rows idx jd ! i =
     (if i \<in> set idx then row_sub (jd ! i) (col_mean (map (\<lambda>j. jd ! j) idx)) else jd ! i)"
  by (simp add: center_rows_def Let_def)

lemma center_strata_rows:
  assumes "\<forall>s\<in>set ss. s < length iis \<and> (\<forall>i\<in>set (iis ! s). i < length jd)"
    and "distinct ss"
    and "\<forall>s\<in>set ss. \<forall>t\<in>set ss. s \<noteq> t \<longrightarrow> set (iis ! s) \<inter> set (iis ! t) = {}"
  shows "\<exists>jc. center_strata iis ss jd = Inr jc \<and> length jc = length jd \<and>
     (\<forall>i<length jd.
        (\<forall>s\<in>set ss. i \<in> set (iis ! s) \<longrightarrow>
           jc ! i = row_sub (jd ! i) (col_mean (map (\<lambda>j. jd ! j) (iis ! s)))) \<and>
        ((\<forall>s\<in>set ss. i \<notin> set (iis ! s)) \<longrightarrow> jc ! i = jd ! i))"
  using assms
proof (induction ss arbitrary: jd)
  case Nil
  then show ?case by simp
next
  case (Cons s ss)
  let ?jd1 = "center_rows (iis ! s) jd"
  have l1: "length ?jd1 = length jd" by (rule length_center_rows)
  have ok: "\<not> (length iis \<le> s \<or> list_ex (\<lambda>i. length jd \<le> i) (iis ! s))"
    using Cons.prems(1) by (auto simp: list_ex_iff)
  have p1: "\<forall>t\<in>set ss. t < length iis \<and> (\<forall>i\<in>set (iis ! t). i < length ?jd1)"
    using Cons.prems(1) l1 by simp
  have p2: "distinct ss" using Cons.prems(2) by simp
  have p3: "\<forall>a\<in>set ss. \<forall>b\<in>set ss. a \<noteq> b \<longrightarrow> set (iis ! a) \<inter> set (iis ! b) = {}"
    using Cons.prems(3) by simp
  from Cons.IH[OF p1 p2 p3] obtain jc where
    run: "center_strata iis ss ?jd1 = Inr jc" and len: "length jc = length ?jd1" and
    all: "\<forall>i<length ?jd1.
        (\<forall>t\<in>set ss. i \<in> set (iis ! t) \<longrightarrow>
           jc ! i = row_sub (?jd1 ! i) (col_mean (map (\<lambda>j. ?jd1 ! j) (iis ! t)))) \<and>
        ((\<forall>t\<in>set ss. i \<notin> set (iis ! t)) \<longrightarrow> jc ! i = ?jd1 ! i)"
    by (elim exE conjE)
  have inn: "jc ! i = row_sub (?jd1 ! i) (col_mean (map (\<lambda>j. ?jd1 ! j) (iis ! t)))"
    if "i < length jd" "t \<in> set ss" "i \<in> set (iis ! t)" for i t
    using all that l1 by simp
  have out: "jc ! i = ?jd1 ! i"
    if "i < length jd" "\<forall>t\<in>set ss. i \<notin> set (iis ! t)" for i
    using all that l1 by simp
  have disj: "set (iis ! s) \<inter> set (iis ! t) = {}" if "t \<in> set ss" for t
  proof -
    from that Cons.prems(2) have "s \<noteq> t" by auto
    with that Cons.prems(3) show ?thesis by simp
  qed
  have keep: "map (\<lambda>j. ?jd1 ! j) (iis ! t) = map (\<lambda>j. jd ! j) (iis ! t)" if t: "t \<in> set ss" for t
  proof (rule map_cong[OF refl])
    fix j assume j: "j \<in> set (iis ! t)"
    with disj[OF t] have "j \<notin> set (iis ! s)" by auto
    moreover from j t Cons.prems(1) have "j < length jd" by simp
    ultimately show "?jd1 ! j = jd ! j" by (simp add: nth_center_rows)
  qed
  have a: "jc ! i = row_sub (jd ! i) (col_mean (map (\<lambda>j. jd ! j) (iis ! t)))"
    if i: "i < length jd" and t: "t \<in> set (s # ss)" and mem: "i \<in> set (iis ! t)" for i t
  proof (cases "t = s")
    case True
    have "\<forall>u\<in>set ss. i \<notin> set (iis ! u)" using disj mem True by auto
    with out[OF i] have "jc ! i = ?jd1 ! i" by simp
    with i mem True show ?thesis by (simp add: nth_center_rows)
  next
    case False
    with t have ts: "t \<in> set ss" by simp
    with disj mem have "i \<notin> set (iis ! s)" by auto
    with i have "?jd1 ! i = jd ! i" by (simp add: nth_center_rows)
    with inn[OF i ts mem] keep[OF ts] show ?thesis by simp
  qed
  have b: "jc ! i = jd ! i"
    if i: "i < length jd" and no: "\<forall>t\<in>set (s # ss). i \<notin> set (iis ! t)" for i
  proof -
    from no have "\<forall>t\<in>set ss. i \<notin> set (iis ! t)" "i \<notin> set (iis ! s)" by simp_all
    with out[OF i] i show ?thesis by (simp add: nth_center_rows)
  qed
  have r: "center_strata iis (s # ss) jd = Inr jc" using ok run by simp
  have l: "length jc = length jd" using len l1 by simp
  show ?case
  proof (intro exI[of _ jc] conjI allI impI ballI)
    show "center_strata iis (s # ss) jd = Inr jc" by (rule r)
    show "length jc = length jd" by (rule l)
  next
    fix i t
    assume "i < length jd" "t \<in> set (s # ss)" "i \<in> set (iis ! t)"
    then show "jc ! i = row_sub (jd ! i) (col_mean (map (\<lambda>j. jd ! j) (iis ! t)))" by (rule a)
  next
    fix i
    assume "i < length jd" "\<forall>t\<in>set (s # ss). i \<notin> set (iis ! t)"
    then show "jc ! i = jd ! i" by (rule b)
  qed
qed

lemma design_nclust_pos:
  assumes "SurveyDesign_init strata cluster wts None fpc0 method nest = Inr d"
  shows "0 < nclust d"
proof -
  note f = design_facts[OF assms]
  from f have "sclust d \<noteq> []" by auto
  then have "set (sclust d) \<noteq> {}" by simp
  with f show ?thesis by auto
qed

lemma collect_length: "collect f cs = Inr xs \<Longrightarrow> length xs = length cs"
  by (induction cs arbitrary: xs) (auto split: sum.splits)

lemma jackknife_replicates_length:
  assumes "SurveyDesign_init strata cluster wts None fpc0 method nest = Inr d"
    and "jackknife_replicates stat d draws = Inr jdata"
  shows "length jdata = nclust d"
  using design_facts[OF assms(1)] collect_length[of _ "[0..<nclust d]" jdata] assms(2)
  by (simp add: jackknife_replicates_def)

text \<open>
  Claim C4. For a design built from strata, cluster and weights and a matrix \<open>jdata\<close>
  with one row for each cluster (the replicate loop of \<^verbatim>\<open>_jackknife\<close> returns such a
  matrix, lemma \<open>jackknife_replicates_length\<close>): in \<^verbatim>\<open>mse\<close> mode the centering step
  subtracts the point estimate from every row; otherwise it subtracts from the row of
  each cluster \<open>c\<close> the column means of the rows of the clusters that have the stratum
  of \<open>c\<close>. The worked example has two strata whose means differ from the mean of
  all rows.
\<close>

theorem jackknife_centering:
  assumes init: "SurveyDesign_init strata cluster wts None fpc0 method nest = Inr d"
    and len: "length jdata = nclust d"
  shows "jackknife_center d True est0 jdata = Inr (map (\<lambda>r. row_sub r est0) jdata) \<and>
    (\<exists>jc. jackknife_center d False est0 jdata = Inr jc \<and> length jc = nclust d \<and>
       (\<forall>c<nclust d.
          jc ! c = row_sub (jdata ! c)
            (col_mean (map (\<lambda>j. jdata ! j)
               (filter (\<lambda>j. strat_for_clust d ! j = strat_for_clust d ! c) [0..<nclust d])))))"
proof -
  note f = design_facts[OF init]
  note sfc = design_strat_for_clust[OF init]
  have iis: "ii d ! s = filter (\<lambda>j. strat_for_clust d ! j = s) [0..<nclust d]"
    if "s < nstrat d" for s
    using that f sfc by (simp add: np_flatnonzero_eq_def)
  have "jdata \<noteq> []" using design_nclust_pos[OF init] len by auto
  then have mse: "jackknife_center d True est0 jdata = Inr (map (\<lambda>r. row_sub r est0) jdata)"
    by (simp add: jackknife_center_def)
  note dii = design_ii[OF init]
  have p1: "\<forall>s\<in>set [0..<nstrat d]. s < length (ii d) \<and> (\<forall>i\<in>set (ii d ! s). i < length jdata)"
    using dii len by simp
  have p3: "\<forall>s\<in>set [0..<nstrat d]. \<forall>t\<in>set [0..<nstrat d].
              s \<noteq> t \<longrightarrow> set (ii d ! s) \<inter> set (ii d ! t) = {}"
    using dii by auto
  from center_strata_rows[OF p1 distinct_upt p3] obtain jc where
    run: "center_strata (ii d) [0..<nstrat d] jdata = Inr jc" and l: "length jc = length jdata"
    and inn: "\<And>i s. i < length jdata \<Longrightarrow> s \<in> set [0..<nstrat d] \<Longrightarrow> i \<in> set (ii d ! s) \<Longrightarrow>
       jc ! i = row_sub (jdata ! i) (col_mean (map (\<lambda>j. jdata ! j) (ii d ! s)))"
    by blast
  have rows: "jc ! c = row_sub (jdata ! c)
            (col_mean (map (\<lambda>j. jdata ! j)
               (filter (\<lambda>j. strat_for_clust d ! j = strat_for_clust d ! c) [0..<nclust d])))"
    if c: "c < nclust d" for c
  proof -
    let ?s = "strat_for_clust d ! c"
    have s: "?s < nstrat d" using sfc c by simp
    have "c \<in> set (ii d ! ?s)" using c by (simp add: iis[OF s])
    from inn[OF _ _ this] c len s show ?thesis by (simp add: iis[OF s])
  qed
  have "jackknife_center d False est0 jdata = Inr jc"
    using f run by (simp add: jackknife_center_def)
  with mse l len rows show ?thesis by simp
qed

theorem jackknife_centering_witness:
  "jackknife_center example_design True [7] [[1], [3], [10], [20]]
     = Inr [[- 6], [- 4], [3], [13]] \<and>
   jackknife_center example_design False [7] [[1], [3], [10], [20]]
     = Inr [[- 1], [1], [- 5], [5]]"
proof -
  have l: "length [[1], [3], [10], [20::real]] = nclust example_design"
    by (simp add: example_design_def)
  note t = jackknife_centering[OF example_design_init l, of "[7]"]
  have a: "jackknife_center example_design True [7] [[1], [3], [10], [20]]
     = Inr [[- 6], [- 4], [3], [13]]"
    using t by (simp add: row_sub_def)
  have b: "jackknife_center example_design False [7] [[1], [3], [10], [20]]
     = Inr [[- 1], [1], [- 5], [5]]"
    using t
    by (simp add: jackknife_center_def example_design_def center_rows_def row_sub_def
          col_mean_def ncols_def upt_rec Let_def)
  from a b show ?thesis by simp
qed

subsection \<open>A jackknife run on the worked example\<close>

lemmas stat_defs = SurveyMean_init_def SurveyTotal_init_def jackknife_def jackknife_replicates_def
  jackknife_center_def jackknife_scale_def jackknife_pseudo_def cluster_nh_def center_rows_def
  mean_stat_def total_stat_def np_dot_def ncols_def row_sub_def col_mean_def gram_def diag_def
  get_rep_weights_def jackknife_rep_weights_def Let_def

lemma example_mean_jackknife:
  "SurveyMean_init example_design (Array1 [10, 20, 30, 40]) False None None no_draws_rep
     = Inr \<lparr>design = example_design, mse = False, data = [[10], [20], [30], [40]],
            est = [25], vcov = [[25 / 2]], stderr = [sqrt (25 / 2)]\<rparr>"
  by (simp add: stat_defs example_design_def upt_rec)

text \<open>
  Claim C5 (not met by the code). The run of \<^verbatim>\<open>SurveyMean\<close> on the worked example, step
  by step: the constructed object holds \<open>design\<close>, \<open>mse\<close>, \<open>data\<close>, \<open>est\<close>, \<open>vcov\<close> and
  \<open>stderr\<close> and no pseudo-values; the local \<^verbatim>\<open>_pseudo\<close> that \<^verbatim>\<open>_jackknife\<close> computes and
  drops is built from \<^verbatim>\<open>np.dot(weights, data) = [100]\<close>, and differs from the formula of
  the specification with the point estimate \<open>est = [25]\<close>.
\<close>

theorem jackknife_pseudo_discarded:
  "SurveyMean_init example_design (Array1 [10, 20, 30, 40]) False None None no_draws_rep
     = Inr \<lparr>design = example_design, mse = False, data = [[10], [20], [30], [40]],
            est = [25], vcov = [[25 / 2]], stderr = [sqrt (25 / 2)]\<rparr> \<and>
   jackknife_replicates (mean_stat [[10], [20], [30], [40]]) example_design no_draws_rep
     = Inr [[55 / 2], [45 / 2], [55 / 2], [45 / 2]] \<and>
   jackknife_center example_design False [25] [[55 / 2], [45 / 2], [55 / 2], [45 / 2]]
     = Inr [[5 / 2], [- 5 / 2], [5 / 2], [- 5 / 2]] \<and>
   cluster_nh example_design = Inr [2, 2, 2, 2] \<and>
   jackknife_pseudo example_design [[10], [20], [30], [40]] [2, 2, 2, 2]
       [[5 / 2], [- 5 / 2], [5 / 2], [- 5 / 2]]
     = Inr [[395 / 2], [405 / 2], [395 / 2], [405 / 2]] \<and>
   spec_pseudo [2, 2, 2, 2] [25] [[5 / 2], [- 5 / 2], [5 / 2], [- 5 / 2]]
     = [[95 / 2], [105 / 2], [95 / 2], [105 / 2]]"
proof -
  have a: "jackknife_replicates (mean_stat [[10], [20], [30], [40]]) example_design no_draws_rep
     = Inr [[55 / 2], [45 / 2], [55 / 2], [45 / 2]]"
    by (simp add: stat_defs example_design_def upt_rec)
  have b: "jackknife_center example_design False [25] [[55 / 2], [45 / 2], [55 / 2], [45 / 2]]
     = Inr [[5 / 2], [- 5 / 2], [5 / 2], [- 5 / 2]]"
    by (simp add: stat_defs example_design_def upt_rec)
  have c: "cluster_nh example_design = Inr [2, 2, 2, 2]"
    by (simp add: stat_defs example_design_def)
  have d: "jackknife_pseudo example_design [[10], [20], [30], [40]] [2, 2, 2, 2]
       [[5 / 2], [- 5 / 2], [5 / 2], [- 5 / 2]]
     = Inr [[395 / 2], [405 / 2], [395 / 2], [405 / 2]]"
    by (simp add: stat_defs example_design_def upt_rec)
  have e: "spec_pseudo [2, 2, 2, 2] [25] [[5 / 2], [- 5 / 2], [5 / 2], [- 5 / 2]]
     = [[95 / 2], [105 / 2], [95 / 2], [105 / 2]]"
    by (simp add: spec_pseudo_def)
  from example_mean_jackknife a b c d e show ?thesis by simp
qed

subsection \<open>One-dimensional data\<close>

text \<open>
  Claim C10. \<^verbatim>\<open>SurveyMean\<close> and \<^verbatim>\<open>SurveyTotal\<close> give for a one-dimensional array of
  length \<open>n\<close> the result (the same object with the same \<open>est\<close>, \<open>vcov\<close> and \<open>stderr\<close>, or
  the same exception) that they give for the matrix of \<open>n\<close> rows and one column with
  the same entries; the data they keep is that matrix.
\<close>

theorem one_dimensional_data_as_column:
  "SurveyMean_init d (Array1 v) m r b dr = SurveyMean_init d (Array2 (map (\<lambda>x. [x]) v)) m r b dr \<and>
   SurveyTotal_init d (Array1 v) r m b dr = SurveyTotal_init d (Array2 (map (\<lambda>x. [x]) v)) r m b dr \<and>
   length (data_matrix (Array1 v)) = length v \<and>
   (\<forall>row\<in>set (data_matrix (Array1 v)). length row = 1) \<and>
   (\<forall>obj. SurveyMean_init d (Array1 v) m r b dr = Inr obj \<longrightarrow> data obj = map (\<lambda>x. [x]) v) \<and>
   (\<forall>obj. SurveyTotal_init d (Array1 v) r m b dr = Inr obj \<longrightarrow> data obj = map (\<lambda>x. [x]) v)"
  by (auto simp: SurveyMean_init_def SurveyTotal_init_def Let_def split: sum.splits)

theorem one_dimensional_data_as_column_witness:
  "SurveyMean_init example_design (Array1 [10, 20, 30, 40]) False None None no_draws_rep
     = Inr \<lparr>design = example_design, mse = False, data = [[10], [20], [30], [40]],
            est = [25], vcov = [[25 / 2]], stderr = [sqrt (25 / 2)]\<rparr> \<and>
   SurveyMean_init example_design (Array2 [[10], [20], [30], [40]]) False None None no_draws_rep
     = Inr \<lparr>design = example_design, mse = False, data = [[10], [20], [30], [40]],
            est = [25], vcov = [[25 / 2]], stderr = [sqrt (25 / 2)]\<rparr> \<and>
   SurveyTotal_init example_design (Array1 [10, 20, 30, 40]) None False None no_draws_rep
     = SurveyTotal_init example_design (Array2 [[10], [20], [30], [40]]) None False None
         no_draws_rep"
  using one_dimensional_data_as_column[of example_design "[10, 20, 30, 40]" False None None
      no_draws_rep]
    example_mean_jackknife
  by simp

subsection \<open>SurveyQuantile: the check of the levels and the constructor\<close>

lemma fold_min_less: "(fold min xs x < (a::real)) = (\<exists>q\<in>set (x # xs). q < a)"
proof -
  have "fold min xs x = Min (set (x # xs))" by (simp only: Min.set_eq_fold)
  moreover have "(Min (set (x # xs)) < a) = (\<exists>q\<in>set (x # xs). q < a)"
    by (rule Min_less_iff) simp_all
  ultimately show ?thesis by simp
qed

lemma check_quantile_result:
  "check_quantile qs =
     (if qs = [] then Inl EmptySequence
      else if \<exists>q\<in>set qs. q < 0 then Inl QuantileOutOfRange
      else Inl TypeError)"
proof (cases qs)
  case Nil
  then show ?thesis by (simp add: check_quantile_def)
next
  case (Cons x xs)
  show ?thesis
    unfolding Cons check_quantile_def using fold_min_less[of xs x 0]
    by (simp del: fold_simps)
qed

text \<open>
  Claim C8 (not met by the code). The check of the quantile levels never passes: it
  raises the \<^verbatim>\<open>ValueError\<close> when a level is negative, and in every other case, for
  levels within \<open>[0, 1]\<close> as for levels above 1, the \<^verbatim>\<open>TypeError\<close> of comparing the
  method \<^verbatim>\<open>self.quantile.max\<close> with 1 (for no level at all, the exception of \<^verbatim>\<open>min()\<close>).
\<close>

theorem quantile_level_check:
  "check_quantile qs =
     (if qs = [] then Inl EmptySequence
      else if \<exists>q\<in>set qs. q < 0 then Inl QuantileOutOfRange
      else Inl TypeError) \<and>
   SurveyQuantile_init example_design (Array1 [1, 2, 3, 4]) [3 / 2] (None :: nat option) False None
     = Inl TypeError \<and>
   SurveyQuantile_init example_design (Array1 [1, 2, 3, 4]) [1 / 2] (None :: nat option) False None
     = Inl TypeError"
  by (simp add: check_quantile_result SurveyQuantile_init_def)

text \<open>
  Claim C7 (not met by the code). No call of the constructor of \<^verbatim>\<open>SurveyQuantile\<close> or
  of \<^verbatim>\<open>SurveyMedian\<close> returns an object: every call ends in an exception.
\<close>

theorem quantile_construction_fails:
  "(\<exists>e. SurveyQuantile_init d x qs r m b = Inl e) \<and>
   (\<exists>e. SurveyMedian_init d x cm m = Inl e) \<and>
   SurveyMedian_init example_design (Array1 [1, 2, 3, 4]) ''jack'' False = Inl TypeError"
  by (simp add: check_quantile_result SurveyQuantile_init_def SurveyMedian_init_def
           split: sum.splits)

subsection \<open>The weighted quantile\<close>









end
